theory Spec2Isabelle
  imports Complex_Main "HOL-Library.Char_ord" "HOL-Library.List_Lexorder" "HOL-Library.AList"
begin

section \<open>Python values\<close>

text \<open>
  The development embeds \<^verbatim>\<open>data_measurements/dataset_statistics.py\<close>. Python strings are
  modelled as \<^typ>\<open>string\<close> (ASCII text; \<^verbatim>\<open>sorted\<close> on strings is the lexicographic order
  on character codes, which is the order of \<^typ>\<open>string\<close> here). Exceptions are values of
  \<open>py_error\<close>; a function that can raise returns \<open>py_error + 'a\<close> with \<open>Inl\<close> the exception.
  Counts are natural numbers (numpy's 64-bit wrap-around is not modelled) and floating-point
  numbers are modelled by exact reals together with the special value NaN and the infinities.
\<close>

datatype py_error =
    TypeError | UnboundLocalError | AttributeError | KeyError | ValueError
  | IndexError | ParserError | FileNotFoundError

datatype npfloat = Num real | NaN | PosInf | NegInf

section \<open>Tokenization\<close>

text \<open>
  \<^verbatim>\<open>_CVEC = CountVectorizer(token_pattern="(?u)\\b\\w+\\b", lowercase=True)\<close> and
  \<^verbatim>\<open>sent_tokenizer = self.cvec.build_tokenizer()\<close>: the tokenizer is
  \<^verbatim>\<open>re.compile(token_pattern).findall\<close>, which returns the maximal runs of word characters
  of its argument, from left to right.
\<close>

definition is_upper :: "char \<Rightarrow> bool" where
  "is_upper c = (CHR ''A'' \<le> c \<and> c \<le> CHR ''Z'')"

definition is_word_char :: "char \<Rightarrow> bool" where
  "is_word_char c =
     ((CHR ''a'' \<le> c \<and> c \<le> CHR ''z'') \<or> (CHR ''A'' \<le> c \<and> c \<le> CHR ''Z'')
      \<or> (CHR ''0'' \<le> c \<and> c \<le> CHR ''9'') \<or> c = CHR ''_'')"

definition lower_char :: "char \<Rightarrow> char" where
  "lower_char c = (if is_upper c then char_of (of_char c + (32::nat)) else c)"

definition lower :: "string \<Rightarrow> string" where
  "lower s = map lower_char s"

fun findall_w :: "string \<Rightarrow> string \<Rightarrow> string list" where
  "findall_w cur [] = (if cur = [] then [] else [cur])"
| "findall_w cur (c # cs) =
     (if is_word_char c then findall_w (cur @ [c]) cs
      else (if cur = [] then [] else [cur]) @ findall_w [] cs)"

definition sent_tokenizer :: "string \<Rightarrow> string list" where
  "sent_tokenizer s = findall_w [] s"

record tokenized_row =
  our_text :: string
  tokenized_text :: "string list"
  length_field :: nat

type_synonym tokenized_df = "tokenized_row list"

text \<open>
  \<^verbatim>\<open>tokenize_batch\<close> of \<^verbatim>\<open>do_tokenization\<close>: each text is lowercased and tokenized;
  \<^verbatim>\<open>text.lower()\<close> raises AttributeError on a missing (None) text.
\<close>

fun tokenize_batch :: "string option list \<Rightarrow> py_error + tokenized_df" where
  "tokenize_batch [] = Inr []"
| "tokenize_batch (None # examples) = Inl AttributeError"
| "tokenize_batch (Some t # examples) =
     (case tokenize_batch examples of
        Inl e \<Rightarrow> Inl e
      | Inr res \<Rightarrow>
          Inr (\<lparr>our_text = t, tokenized_text = sent_tokenizer (lower t),
                length_field = length (sent_tokenizer (lower t))\<rparr> # res))"

section \<open>Vocabulary counting\<close>

text \<open>
  \<^verbatim>\<open>count_vocab_frequencies\<close> fits \<^verbatim>\<open>CountVectorizer(tokenizer=dummy, preprocessor=dummy)\<close>
  on the token tuples. With both callables the identity, the features of a document are its
  tokens as they are; \<^verbatim>\<open>fit\<close> collects the distinct tokens in sorted order and raises
  ValueError on an empty vocabulary; \<^verbatim>\<open>transform\<close> gives one row per document holding,
  for each feature, the number of its occurrences in that document.
\<close>

definition cvec_fit :: "string list list \<Rightarrow> py_error + string list" where
  "cvec_fit docs =
     (let vocabulary = remdups (concat docs)
      in if vocabulary = [] then Inl ValueError else Inr (sort vocabulary))"

definition cvec_transform :: "string list \<Rightarrow> string list list \<Rightarrow> nat list list" where
  "cvec_transform feature_names docs =
     map (\<lambda>doc. map (\<lambda>w. count_list doc w) feature_names) docs"

text \<open>
  \<^verbatim>\<open>np.linspace(0, stop, num).astype(int)\<close>: \<open>num\<close> evenly spaced points from 0 to \<open>stop\<close>,
  truncated to integers. The points are computed exactly here; the results below use of
  them only that they start at 0, never decrease and end at \<open>stop\<close>.
\<close>

definition linspace_int :: "nat \<Rightarrow> nat \<Rightarrow> nat list" where
  "linspace_int stop num = map (\<lambda>i. (i * stop) div (num - 1)) [0..<num]"

text \<open>\<^verbatim>\<open>document_matrix[a:b]\<close> and \<^verbatim>\<open>np.sum(rows, axis=0)\<close> for rows of width \<open>m\<close>.\<close>

definition row_slice :: "'a list \<Rightarrow> nat \<Rightarrow> nat \<Rightarrow> 'a list" where
  "row_slice M a b = take (b - a) (drop a M)"

definition np_sum_axis0 :: "nat \<Rightarrow> nat list list \<Rightarrow> nat list" where
  "np_sum_axis0 m rows = foldr (map2 (+)) rows (replicate m 0)"

text \<open>The \<^verbatim>\<open>while i < len(batches) - 1\<close> loop, accumulating one sum per batch in \<open>tf\<close>.\<close>

function batch_loop ::
  "nat list list \<Rightarrow> nat \<Rightarrow> nat list \<Rightarrow> nat \<Rightarrow> nat list list \<Rightarrow> nat list list" where
  "batch_loop document_matrix m batches i tf =
     (if i + 1 < length batches
      then batch_loop document_matrix m batches (i + 1)
             (tf @ [np_sum_axis0 m (row_slice document_matrix (batches ! i) (batches ! (i + 1)))])
      else tf)"
  by pat_completeness auto
termination
  by (relation "measure (\<lambda>(M, m, batches, i, tf). length batches - i)") auto

declare batch_loop.simps [simp del]

type_synonym word_count_df = "(string \<times> nat) list"

text \<open>
  \<^verbatim>\<open>count_vocab_frequencies\<close> with the module constant \<^verbatim>\<open>_NUM_VOCAB_BATCHES\<close> as the
  parameter \<open>num_batches\<close>. The result is the table indexed by word with the column
  \<^verbatim>\<open>CNT\<close>. With no batch at all \<^verbatim>\<open>np.sum([], axis=0)\<close> is the scalar 0 and the
  DataFrame constructor accepts it for a single feature only.
\<close>

definition count_vocab_frequencies_nb :: "nat \<Rightarrow> tokenized_df \<Rightarrow> py_error + word_count_df" where
  "count_vocab_frequencies_nb num_batches tokenized_df =
     (let docs = map tokenized_text tokenized_df
      in case cvec_fit docs of
           Inl e \<Rightarrow> Inl e
         | Inr feature_names \<Rightarrow>
             (let document_matrix = cvec_transform feature_names docs;
                  batches = linspace_int (length tokenized_df) num_batches;
                  tf = batch_loop document_matrix (length feature_names) batches 0 []
              in if tf = []
                 then (if length feature_names = 1 then Inr [(hd feature_names, 0)]
                       else Inl ValueError)
                 else Inr (zip feature_names (np_sum_axis0 (length feature_names) tf))))"

definition NUM_VOCAB_BATCHES :: nat where
  "NUM_VOCAB_BATCHES = 2000"

definition count_vocab_frequencies :: "tokenized_df \<Rightarrow> py_error + word_count_df" where
  "count_vocab_frequencies tokenized_df = count_vocab_frequencies_nb NUM_VOCAB_BATCHES tokenized_df"

text \<open>
  The reference the batched accumulation is compared with: one summation over the whole
  document matrix.
\<close>

definition count_vocab_unbatched :: "tokenized_df \<Rightarrow> py_error + word_count_df" where
  "count_vocab_unbatched tokenized_df =
     (let docs = map tokenized_text tokenized_df
      in case cvec_fit docs of
           Inl e \<Rightarrow> Inl e
         | Inr feature_names \<Rightarrow>
             Inr (zip feature_names
                    (np_sum_axis0 (length feature_names) (cvec_transform feature_names docs))))"

section \<open>Vocabulary tables\<close>

text \<open>
  A row of \<^verbatim>\<open>vocab_counts_df\<close>: the index label (the word) and the columns \<^verbatim>\<open>CNT\<close>,
  \<^verbatim>\<open>PROP\<close> and \<^verbatim>\<open>VOCAB\<close>. Dividing a count column by a float follows numpy: a zero
  divisor gives NaN for a zero count and infinity otherwise, and nothing is raised.
\<close>

record vocab_row =
  word :: string
  cnt :: nat
  proportion :: npfloat
  vocab :: string

type_synonym vocab_counts_df = "vocab_row list"

definition np_div :: "nat \<Rightarrow> real \<Rightarrow> npfloat" where
  "np_div c denom = (if denom = 0 then (if c = 0 then NaN else PosInf) else Num (real c / denom))"

text \<open>
  \<^verbatim>\<open>calc_p_word\<close>. No statement of it raises; the result type keeps the error branch so that
  callers and claims can speak of failure. \<^verbatim>\<open>sort_values(by=CNT, ascending=False)\<close> is
  modelled by a stable sort; pandas leaves the order of ties open.
\<close>

definition calc_p_word :: "word_count_df \<Rightarrow> py_error + vocab_counts_df" where
  "calc_p_word word_count_df =
     (let total_count = real (sum_list (map snd word_count_df));
          with_prop = map (\<lambda>(w, c). \<lparr>word = w, cnt = c, proportion = np_div c total_count, vocab = w\<rparr>)
                        word_count_df
      in Inr (sort_key (\<lambda>r. - int (cnt r)) with_prop))"

fun str_nat :: "nat \<Rightarrow> string" where
  "str_nat n =
     (if n < 10 then [char_of (48 + n)] else str_nat (n div 10) @ [char_of (48 + n mod 10)])"

declare str_nat.simps [simp del]

text \<open>
  \<^verbatim>\<open>_CLOSED_CLASS\<close>: the NLTK English stop words (a table outside this repository, taken
  as the parameter \<open>stopwords_english\<close>), the listed contractions and the numbers 0 to 20.
\<close>

definition CLOSED_CLASS :: "string list \<Rightarrow> string list" where
  "CLOSED_CLASS stopwords_english =
     stopwords_english
     @ [''t'', ''n'', ''ll'', ''d'', ''wasn'', ''weren'', ''won'', ''aren'', ''wouldn'',
        ''shouldn'', ''didn'', ''don'', ''hasn'', ''ain'', ''couldn'', ''doesn'', ''hadn'',
        ''haven'', ''isn'', ''mightn'', ''mustn'', ''needn'', ''shan'', ''would'', ''could'',
        ''dont'', ''u'']
     @ map str_nat [0..<21]"

text \<open>
  \<^verbatim>\<open>filter_vocab\<close>: \<^verbatim>\<open>drop(_CLOSED_CLASS, errors="ignore")\<close> removes the rows whose index
  label is in the list and ignores labels that are not in the index; the proportions are
  then recomputed over the remaining counts.
\<close>

definition filter_vocab :: "string list \<Rightarrow> vocab_counts_df \<Rightarrow> vocab_counts_df" where
  "filter_vocab stopwords_english vocab_counts_df =
     (let filtered_vocab_counts_df =
            filter (\<lambda>r. word r \<notin> set (CLOSED_CLASS stopwords_english)) vocab_counts_df;
          filtered_count_denom = real (sum_list (map cnt filtered_vocab_counts_df))
      in map (\<lambda>r. r\<lparr>proportion := np_div (cnt r) filtered_count_denom\<rparr>) filtered_vocab_counts_df)"

section \<open>Files and the dataset statistics object\<close>

text \<open>
  Tables as they are exchanged with pandas: a cell is a float, an integer or a string; a
  DataFrame has an optional index name, the column names and one row per index label
  holding the label and the values in column order; a Series has an index and one value
  per label.
\<close>

datatype cell = Flt npfloat | Intg int | Str string

record dataframe =
  index_name :: "string option"
  column_names :: "string list"
  rows :: "(cell \<times> cell list) list"

record series =
  s_index_name :: "string option"
  s_rows :: "(cell \<times> cell) list"

text \<open>
  The cache directory is a finite map from paths to file contents. A CSV file holds its
  header and its data rows; the availability record is a JSON object of string lists; the
  binary table files hold the table that was written (the helpers \<^verbatim>\<open>ds_utils.read_df\<close>
  and \<^verbatim>\<open>ds_utils.write_df\<close> are not among the sources and are taken to load what was
  persisted). Directories are not modelled: \<^verbatim>\<open>isdir\<close> and \<^verbatim>\<open>mkdir\<close> have no counterpart.
\<close>

datatype file_content =
    CsvFile "string list" "cell list list"
  | JsonFile "(string \<times> string list) list"
  | VocabFile vocab_counts_df
  | TokenizedFile tokenized_df
  | TextDsetFile "string option list"

type_synonym filesystem = "(string \<times> file_content) list"

definition exists_file :: "filesystem \<Rightarrow> string \<Rightarrow> bool" where
  "exists_file fs fid = (map_of fs fid \<noteq> None)"

definition write_file :: "filesystem \<Rightarrow> string \<Rightarrow> file_content \<Rightarrow> filesystem" where
  "write_file fs fid content = AList.update fid content fs"

definition pjoin :: "string \<Rightarrow> string \<Rightarrow> string" where
  "pjoin a b =
     (if b \<noteq> [] \<and> hd b = CHR ''/'' then b
      else if a = [] \<or> last a = CHR ''/'' then a @ b
      else a @ ''/'' @ b)"

record dstats =
  dataset_cache_dir :: string
  use_cache :: bool
  save :: bool
  text_dset :: "string option list option"
  tokenized_df :: "tokenized_df option"
  vocab_counts_df :: "vocab_counts_df option"
  vocab_counts_filtered_df :: "vocab_counts_df option"
  min_vocab_count :: nat

definition MIN_VOCAB_COUNT :: nat where
  "MIN_VOCAB_COUNT = 10"

definition tokenized_df_fid :: "dstats \<Rightarrow> string" where
  "tokenized_df_fid self = pjoin (dataset_cache_dir self) ''tokenized_df.feather''"

definition text_dset_fid :: "dstats \<Rightarrow> string" where
  "text_dset_fid self = pjoin (dataset_cache_dir self) ''text_dset''"

definition vocab_counts_df_fid :: "dstats \<Rightarrow> string" where
  "vocab_counts_df_fid self = pjoin (dataset_cache_dir self) ''vocab_counts.feather''"

text \<open>
  \<^verbatim>\<open>prepare_text_dset\<close> starts with \<^verbatim>\<open>self.get_base_dataset()\<close>; the class defines no
  such method, so the call raises AttributeError.
\<close>

definition prepare_text_dset :: "dstats \<Rightarrow> py_error + dstats" where
  "prepare_text_dset self = Inl AttributeError"

definition load_or_prepare_text_dset ::
  "bool \<Rightarrow> filesystem \<Rightarrow> dstats \<Rightarrow> py_error + (filesystem \<times> dstats)" where
  "load_or_prepare_text_dset load_only fs self =
     (if use_cache self \<and> exists_file fs (text_dset_fid self)
      then (case map_of fs (text_dset_fid self) of
              Some (TextDsetFile d) \<Rightarrow> Inr (fs, self\<lparr>text_dset := Some d\<rparr>)
            | _ \<Rightarrow> Inl FileNotFoundError)
      else if \<not> load_only
      then (case prepare_text_dset self of
              Inl e \<Rightarrow> Inl e
            | Inr self' \<Rightarrow>
                (case text_dset self' of
                   None \<Rightarrow> Inl AttributeError
                 | Some d \<Rightarrow>
                     if save self' then Inr (write_file fs (text_dset_fid self') (TextDsetFile d), self')
                     else Inr (fs, self')))
      else Inr (fs, self))"

text \<open>
  \<^verbatim>\<open>do_tokenization\<close>: \<^verbatim>\<open>Dataset.map(tokenize_batch, batched=True)\<close> applies the batch
  function to consecutive chunks and concatenates; the batch function works text by text,
  so one application to all texts gives the same table.
\<close>

definition do_tokenization ::
  "filesystem \<Rightarrow> dstats \<Rightarrow> py_error + (tokenized_df \<times> filesystem \<times> dstats)" where
  "do_tokenization fs self =
     (case (if text_dset self = None then load_or_prepare_text_dset False fs self
            else Inr (fs, self)) of
        Inl e \<Rightarrow> Inl e
      | Inr (fs', self') \<Rightarrow>
          (case text_dset self' of
             None \<Rightarrow> Inl AttributeError
           | Some texts \<Rightarrow>
               (case tokenize_batch texts of
                  Inl e \<Rightarrow> Inl e
                | Inr tokenized \<Rightarrow> Inr (tokenized, fs', self'))))"

definition load_or_prepare_tokenized_df ::
  "bool \<Rightarrow> filesystem \<Rightarrow> dstats \<Rightarrow> py_error + (filesystem \<times> dstats)" where
  "load_or_prepare_tokenized_df load_only fs self =
     (if use_cache self \<and> exists_file fs (tokenized_df_fid self)
      then (case map_of fs (tokenized_df_fid self) of
              Some (TokenizedFile t) \<Rightarrow> Inr (fs, self\<lparr>tokenized_df := Some t\<rparr>)
            | _ \<Rightarrow> Inl ParserError)
      else if \<not> load_only
      then (case do_tokenization fs self of
              Inl e \<Rightarrow> Inl e
            | Inr (t, fs', self') \<Rightarrow>
                if save self'
                then Inr (write_file fs' (tokenized_df_fid self') (TokenizedFile t),
                          self'\<lparr>tokenized_df := Some t\<rparr>)
                else Inr (fs', self'\<lparr>tokenized_df := Some t\<rparr>))
      else Inr (fs, self))"

text \<open>
  \<^verbatim>\<open>load_vocab\<close> with \<^verbatim>\<open>_set_idx_col_names\<close>: the table comes back from the binary
  file with a plain index and its \<^verbatim>\<open>VOCAB\<close> column, so the index is taken from that column.
\<close>

definition set_idx_col_names :: "vocab_counts_df \<Rightarrow> vocab_counts_df" where
  "set_idx_col_names input_vocab_df = map (\<lambda>r. r\<lparr>word := vocab r\<rparr>) input_vocab_df"

definition load_vocab :: "filesystem \<Rightarrow> dstats \<Rightarrow> py_error + dstats" where
  "load_vocab fs self =
     (case map_of fs (vocab_counts_df_fid self) of
        None \<Rightarrow> Inl FileNotFoundError
      | Some (VocabFile v) \<Rightarrow> Inr (self\<lparr>vocab_counts_df := Some (set_idx_col_names v)\<rparr>)
      | Some _ \<Rightarrow> Inl ParserError)"

definition load_or_prepare_vocab ::
  "string list \<Rightarrow> bool \<Rightarrow> filesystem \<Rightarrow> dstats \<Rightarrow> py_error + (filesystem \<times> dstats)" where
  "load_or_prepare_vocab stopwords_english load_only fs self =
     (if use_cache self \<and> exists_file fs (vocab_counts_df_fid self)
      then (case load_vocab fs self of
              Inl e \<Rightarrow> Inl e
            | Inr self' \<Rightarrow>
                Inr (fs, self'\<lparr>vocab_counts_filtered_df :=
                                 map_option (filter_vocab stopwords_english) (vocab_counts_df self')\<rparr>))
      else if \<not> load_only
      then (case load_or_prepare_tokenized_df False fs self of
              Inl e \<Rightarrow> Inl e
            | Inr (fs', self') \<Rightarrow>
                (case tokenized_df self' of
                   None \<Rightarrow> Inl TypeError
                 | Some t \<Rightarrow>
                     (case count_vocab_frequencies t of
                        Inl e \<Rightarrow> Inl e
                      | Inr word_count_df \<Rightarrow>
                          (case calc_p_word word_count_df of
                             Inl e \<Rightarrow> Inl e
                           | Inr v \<Rightarrow>
                               (let self'' = self'\<lparr>vocab_counts_df := Some v,
                                                   vocab_counts_filtered_df :=
                                                     Some (filter_vocab stopwords_english v)\<rparr>
                                in if save self''
                                   then Inr (write_file fs' (vocab_counts_df_fid self'') (VocabFile v),
                                             self'')
                                   else Inr (fs', self''))))))
      else Inr (fs, self))"

section \<open>Available identity terms\<close>

definition IDENTITY_TERMS :: "string list" where
  "IDENTITY_TERMS =
     [''man'', ''woman'', ''non-binary'', ''gay'', ''lesbian'', ''queer'', ''trans'',
      ''straight'', ''cis'', ''she'', ''her'', ''hers'', ''he'', ''him'', ''his'', ''they'',
      ''them'', ''their'', ''theirs'', ''himself'', ''herself'']"

record npmi_stats =
  dstats :: dstats
  pmi_dataset_cache_dir :: string
  termlist :: "string list"
  available_terms :: "string list"
  npmi_use_cache :: bool
  npmi_load_only :: bool
  npmi_min_vocab_count :: nat
  npmi_terms_fid :: string

text \<open>The constructor of \<^verbatim>\<open>nPMIStatisticsCacheClass\<close>.\<close>

definition nPMIStatisticsCacheClass :: "dstats \<Rightarrow> bool \<Rightarrow> bool \<Rightarrow> npmi_stats" where
  "nPMIStatisticsCacheClass dataset_stats load_only use_cache_arg =
     \<lparr>dstats = dataset_stats,
      pmi_dataset_cache_dir = pjoin (dataset_cache_dir dataset_stats) ''pmi_files'',
      termlist = IDENTITY_TERMS,
      available_terms = IDENTITY_TERMS,
      npmi_use_cache = use_cache_arg,
      npmi_load_only = load_only,
      npmi_min_vocab_count = min_vocab_count dataset_stats,
      npmi_terms_fid = pjoin (dataset_cache_dir dataset_stats) ''npmi_terms.json''\<rparr>"

text \<open>
  The string operator \<^verbatim>\<open>format % args\<close> for the conversions \<^verbatim>\<open>%s\<close> and \<^verbatim>\<open>%%\<close>; a
  single string on the right is one argument. A conversion without an argument and an
  argument without a conversion both raise TypeError; other conversion characters are
  outside this model (ValueError).
\<close>

fun str_mod :: "string \<Rightarrow> string list \<Rightarrow> py_error + string" where
  "str_mod [] args = (if args = [] then Inr [] else Inl TypeError)"
| "str_mod [c] args =
     (if c = CHR ''%'' then Inl ValueError
      else if args = [] then Inr [c] else Inl TypeError)"
| "str_mod (c # d # cs) args =
     (if c = CHR ''%''
      then (if d = CHR ''s''
            then (case args of
                    [] \<Rightarrow> Inl TypeError
                  | a # rest \<Rightarrow>
                      (case str_mod cs rest of Inl e \<Rightarrow> Inl e | Inr r \<Rightarrow> Inr (a @ r)))
            else if d = CHR ''%''
            then (case str_mod cs args of Inl e \<Rightarrow> Inl e | Inr r \<Rightarrow> Inr (CHR ''%'' # r))
            else Inl ValueError)
      else (case str_mod (d # cs) args of Inl e \<Rightarrow> Inl e | Inr r \<Rightarrow> Inr (c # r)))"

text \<open>\<^verbatim>\<open>json.load(open(fid))["available terms"]\<close>.\<close>

definition json_available_terms :: "filesystem \<Rightarrow> string \<Rightarrow> py_error + string list" where
  "json_available_terms fs fid =
     (case map_of fs fid of
        None \<Rightarrow> Inl FileNotFoundError
      | Some (JsonFile obj) \<Rightarrow>
          (case map_of obj ''available terms'' of None \<Rightarrow> Inl KeyError | Some ts \<Rightarrow> Inr ts)
      | Some _ \<Rightarrow> Inl ValueError)"

text \<open>
  The truth test of \<^verbatim>\<open>vocab_counts_df.loc[word, CNT] >= self.min_vocab_count\<close> in the
  last comprehension: a label carried by one row gives a boolean, a label carried by
  several rows gives a Series whose truth value is ambiguous (ValueError).
\<close>

definition loc_cnt_ge :: "vocab_counts_df \<Rightarrow> nat \<Rightarrow> string \<Rightarrow> py_error + bool" where
  "loc_cnt_ge v minimum w =
     (case filter (\<lambda>r. word r = w) v of
        [] \<Rightarrow> Inl KeyError
      | [r] \<Rightarrow> Inr (minimum \<le> cnt r)
      | _ \<Rightarrow> Inl ValueError)"

fun filter_err :: "('a \<Rightarrow> py_error + bool) \<Rightarrow> 'a list \<Rightarrow> py_error + 'a list" where
  "filter_err test [] = Inr []"
| "filter_err test (x # xs) =
     (case test x of
        Inl e \<Rightarrow> Inl e
      | Inr y \<Rightarrow>
          (case filter_err test xs of
             Inl e \<Rightarrow> Inl e
           | Inr ys \<Rightarrow> Inr (if y then x # ys else ys)))"

text \<open>
  The statements of \<^verbatim>\<open>load_or_prepare_npmi_terms\<close> after its first logging call. When
  neither branch of the conditional runs, \<^verbatim>\<open>available_terms\<close> is read before it was
  ever assigned.
\<close>

definition load_or_prepare_npmi_terms_body ::
  "filesystem \<Rightarrow> npmi_stats \<Rightarrow> py_error + (string list \<times> filesystem \<times> npmi_stats)" where
  "load_or_prepare_npmi_terms_body fs self =
     (case (if npmi_use_cache self \<and> exists_file fs (npmi_terms_fid self)
            then (case json_available_terms fs (npmi_terms_fid self) of
                    Inl e \<Rightarrow> Inl e
                  | Inr ts \<Rightarrow> Inr (ts \<noteq> []))
            else Inr False) of
        Inl e \<Rightarrow> Inl e
      | Inr cached \<Rightarrow>
          if cached
          then (case json_available_terms fs (npmi_terms_fid self) of
                  Inl e \<Rightarrow> Inl e
                | Inr ts \<Rightarrow> Inr (ts, fs, self\<lparr>available_terms := ts\<rparr>))
          else if \<not> npmi_load_only self
          then (case (case vocab_counts_df (dstats self) of
                        None \<Rightarrow> if termlist self = [] then Inr [] else Inl AttributeError
                      | Some v \<Rightarrow>
                          (let true_false = map (\<lambda>term. term \<in> set (map word v)) (termlist self);
                               word_list_tmp =
                                 map fst (filter snd (zip (termlist self) true_false))
                           in filter_err (loc_cnt_ge v (npmi_min_vocab_count self)) word_list_tmp)) of
                  Inl e \<Rightarrow> Inl e
                | Inr ts \<Rightarrow>
                    Inr (ts,
                         write_file fs (npmi_terms_fid self) (JsonFile [(''available terms'', ts)]),
                         self\<lparr>available_terms := ts\<rparr>))
          else Inl UnboundLocalError)"

text \<open>
  \<^verbatim>\<open>load_or_prepare_npmi_terms\<close>: the first statement evaluates
  \<^verbatim>\<open>"Looking for cached terms in " % self.npmi_terms_fid\<close> as the argument of the logging
  call, before anything else is done.
\<close>

definition load_or_prepare_npmi_terms ::
  "filesystem \<Rightarrow> npmi_stats \<Rightarrow> py_error + (string list \<times> filesystem \<times> npmi_stats)" where
  "load_or_prepare_npmi_terms fs self =
     (case str_mod ''Looking for cached terms in '' [npmi_terms_fid self] of
        Inl e \<Rightarrow> Inl e
      | Inr message \<Rightarrow> load_or_prepare_npmi_terms_body fs self)"

text \<open>
  \<^verbatim>\<open>DatasetStatisticsCacheClass.load_or_prepare_npmi\<close>: the nPMI object is constructed and
  asked for its terms (the object is returned instead of being stored in an attribute).
\<close>

definition load_or_prepare_npmi ::
  "bool \<Rightarrow> filesystem \<Rightarrow> dstats \<Rightarrow> py_error + (filesystem \<times> npmi_stats)" where
  "load_or_prepare_npmi load_only fs self =
     (case load_or_prepare_npmi_terms fs (nPMIStatisticsCacheClass self load_only (use_cache self)) of
        Inl e \<Rightarrow> Inl e
      | Inr (ts, fs', npmi_stats') \<Rightarrow> Inr (fs', npmi_stats'))"

definition get_available_terms ::
  "filesystem \<Rightarrow> npmi_stats \<Rightarrow> py_error + (string list \<times> filesystem \<times> npmi_stats)" where
  "get_available_terms fs self = load_or_prepare_npmi_terms fs self"

section \<open>DataFrame operations\<close>

text \<open>
  The pandas operations the nPMI code uses, on the table model above. With
  \<^verbatim>\<open>pd.set_option("use_inf_as_na", True)\<close> the infinities count as missing values.
  Reading a CSV file keeps the cells that were written (the parsing of numbers and of
  missing-value spellings is not modelled).
\<close>

definition isna :: "cell \<Rightarrow> bool" where
  "isna c = (c = Flt NaN \<or> c = Flt PosInf \<or> c = Flt NegInf)"

definition col_pos :: "string list \<Rightarrow> string \<Rightarrow> nat" where
  "col_pos names c = length (takeWhile (\<lambda>n. n \<noteq> c) names)"

definition empty_df :: dataframe where
  "empty_df = \<lparr>index_name = None, column_names = [], rows = []\<rparr>"

definition getitem :: "dataframe \<Rightarrow> string \<Rightarrow> py_error + series" where
  "getitem df c =
     (if c \<in> set (column_names df)
      then Inr \<lparr>s_index_name = index_name df,
                s_rows = map (\<lambda>(l, vs). (l, vs ! col_pos (column_names df) c)) (rows df)\<rparr>
      else Inl KeyError)"

definition select_cols :: "dataframe \<Rightarrow> string list \<Rightarrow> py_error + dataframe" where
  "select_cols df cs =
     (if set cs \<subseteq> set (column_names df)
      then Inr (df\<lparr>column_names := cs,
                   rows := map (\<lambda>(l, vs). (l, map (\<lambda>c. vs ! col_pos (column_names df) c) cs))
                             (rows df)\<rparr>)
      else Inl KeyError)"

definition dropna :: "dataframe \<Rightarrow> dataframe" where
  "dropna df = df\<lparr>rows := filter (\<lambda>(l, vs). list_all (\<lambda>v. \<not> isna v) vs) (rows df)\<rparr>"

fun map_err :: "('a \<Rightarrow> py_error + 'b) \<Rightarrow> 'a list \<Rightarrow> py_error + 'b list" where
  "map_err f [] = Inr []"
| "map_err f (x # xs) =
     (case f x of
        Inl e \<Rightarrow> Inl e
      | Inr y \<Rightarrow> (case map_err f xs of Inl e \<Rightarrow> Inl e | Inr ys \<Rightarrow> Inr (y # ys)))"

definition cell_to_float :: "cell \<Rightarrow> py_error + cell" where
  "cell_to_float c =
     (case c of
        Flt x \<Rightarrow> Inr (Flt x)
      | Intg i \<Rightarrow> Inr (Flt (Num (real_of_int i)))
      | Str x \<Rightarrow> Inl ValueError)"

definition cell_to_int :: "cell \<Rightarrow> py_error + cell" where
  "cell_to_int c =
     (case c of
        Flt (Num r) \<Rightarrow> Inr (Intg (if 0 \<le> r then \<lfloor>r\<rfloor> else \<lceil>r\<rceil>))
      | Flt _ \<Rightarrow> Inl ValueError
      | Intg i \<Rightarrow> Inr (Intg i)
      | Str x \<Rightarrow> Inl ValueError)"

definition astype :: "(cell \<Rightarrow> py_error + cell) \<Rightarrow> series \<Rightarrow> py_error + series" where
  "astype conv sr =
     (case map_err (\<lambda>(l, v). case conv v of Inl e \<Rightarrow> Inl e | Inr v' \<Rightarrow> Inr (l, v')) (s_rows sr) of
        Inl e \<Rightarrow> Inl e
      | Inr rs \<Rightarrow> Inr (sr\<lparr>s_rows := rs\<rparr>))"

text \<open>
  \<^verbatim>\<open>df[c] = series\<close>: a frame without rows takes the index of a series that has some
  (keeping its own index name if it has one, its columns filled with NaN); then the series
  is aligned with the index of the frame (a missing label gives NaN, duplicate labels in a
  series with another index raise ValueError) and the column is replaced or appended.
\<close>

definition reindex :: "series \<Rightarrow> cell list \<Rightarrow> py_error + cell list" where
  "reindex sr labels =
     (if map fst (s_rows sr) = labels then Inr (map snd (s_rows sr))
      else if \<not> distinct (map fst (s_rows sr)) then Inl ValueError
      else Inr (map (\<lambda>l. case map_of (s_rows sr) l of None \<Rightarrow> Flt NaN | Some v \<Rightarrow> v) labels))"

definition ensure_valid_index :: "dataframe \<Rightarrow> series \<Rightarrow> dataframe" where
  "ensure_valid_index df sr =
     (if rows df = [] \<and> s_rows sr \<noteq> []
      then \<lparr>index_name = (case index_name df of None \<Rightarrow> s_index_name sr | Some n \<Rightarrow> Some n),
            column_names = column_names df,
            rows = map (\<lambda>(l, v). (l, replicate (length (column_names df)) (Flt NaN))) (s_rows sr)\<rparr>
      else df)"

definition setitem :: "dataframe \<Rightarrow> string \<Rightarrow> series \<Rightarrow> py_error + dataframe" where
  "setitem df c sr =
     (let df1 = ensure_valid_index df sr
      in case reindex sr (map fst (rows df1)) of
           Inl e \<Rightarrow> Inl e
         | Inr vals \<Rightarrow>
             if c \<in> set (column_names df1)
             then Inr (df1\<lparr>rows := map (\<lambda>((l, vs), v). (l, vs[col_pos (column_names df1) c := v]))
                                      (zip (rows df1) vals)\<rparr>)
             else Inr (df1\<lparr>column_names := column_names df1 @ [c],
                           rows := map (\<lambda>((l, vs), v). (l, vs @ [v])) (zip (rows df1) vals)\<rparr>))"

text \<open>
  \<^verbatim>\<open>sort_values(by=..., ascending=True)\<close> on a numeric column: the rows with a value in
  ascending order, then the rows with a missing value. The sort is modelled as stable.
\<close>

definition sort_value :: "cell \<Rightarrow> real option" where
  "sort_value c =
     (case c of
        Flt (Num r) \<Rightarrow> Some r
      | Intg i \<Rightarrow> Some (real_of_int i)
      | _ \<Rightarrow> None)"

definition sort_values :: "dataframe \<Rightarrow> string \<Rightarrow> py_error + dataframe" where
  "sort_values df by =
     (if by \<in> set (column_names df)
      then (let p = col_pos (column_names df) by;
                key = (\<lambda>(l, vs). sort_value (vs ! p));
                present = filter (\<lambda>r. key r \<noteq> None) (rows df);
                missing = filter (\<lambda>r. key r = None) (rows df)
            in Inr (df\<lparr>rows := sort_key (\<lambda>r. case key r of None \<Rightarrow> 0 | Some x \<Rightarrow> x) present
                                  @ missing\<rparr>))
      else Inl KeyError)"

text \<open>
  \<^verbatim>\<open>df.to_csv(f)\<close> writes the index as the first column, under the index name or an empty
  header; \<^verbatim>\<open>pd.read_csv(f)\<close> numbers the rows and names a column with an empty header
  \<^verbatim>\<open>Unnamed: i\<close> after its position.
\<close>

definition to_csv :: "dataframe \<Rightarrow> file_content" where
  "to_csv df =
     CsvFile ((case index_name df of None \<Rightarrow> [] | Some n \<Rightarrow> n) # column_names df)
             (map (\<lambda>(l, vs). l # vs) (rows df))"

definition read_csv :: "filesystem \<Rightarrow> string \<Rightarrow> py_error + dataframe" where
  "read_csv fs fid =
     (case map_of fs fid of
        None \<Rightarrow> Inl FileNotFoundError
      | Some (CsvFile header body) \<Rightarrow>
          if header = [] then Inl ParserError
          else Inr \<lparr>index_name = None,
                    column_names = map (\<lambda>(i, h). if h = [] then ''Unnamed: '' @ str_nat i else h)
                                     (enumerate 0 header),
                    rows = map (\<lambda>(i, vs). (Intg (int i), vs)) (enumerate 0 body)\<rparr>
      | Some _ \<Rightarrow> Inl ParserError)"

definition set_index :: "dataframe \<Rightarrow> string \<Rightarrow> dataframe" where
  "set_index df c =
     (let p = col_pos (column_names df) c
      in \<lparr>index_name = Some c,
          column_names = take p (column_names df) @ drop (Suc p) (column_names df),
          rows = map (\<lambda>(l, vs). (vs ! p, take p vs @ drop (Suc p) vs)) (rows df)\<rparr>)"

definition set_columns :: "dataframe \<Rightarrow> string list \<Rightarrow> py_error + dataframe" where
  "set_columns df new_names =
     (if length new_names = length (column_names df) then Inr (df\<lparr>column_names := new_names\<rparr>)
      else Inl ValueError)"

section \<open>The nPMI engine and the missing module constants\<close>

text \<open>
  The class \<^verbatim>\<open>nPMI\<close> (\<^verbatim>\<open>data_measurements/npmi/npmi.py\<close>) and the constants \<^verbatim>\<open>WORD\<close> and
  \<^verbatim>\<open>VOCAB\<close> (\<^verbatim>\<open>utils/dataset_utils.py\<close>) are not among the sources. They are parameters of
  the model: \<open>nPMI\<close> builds the engine object from the vocabulary and the tokenized corpus,
  and the object offers \<^verbatim>\<open>calc_metrics\<close> (the co-occurrence, PMI and nPMI tables of one
  term) and \<^verbatim>\<open>calc_paired_metrics\<close> (the paired results of a pair, a dictionary with the
  keys \<^verbatim>\<open>npmi-bias\<close>, \<^verbatim>\<open>npmi\<close> and \<^verbatim>\<open>count\<close>).
\<close>

type_synonym subgroup_tables = "dataframe \<times> dataframe \<times> dataframe"

record paired_results =
  pr_npmi_bias :: "series option"
  pr_npmi :: "dataframe option"
  pr_count :: "dataframe option"

record npmi_obj =
  calc_metrics :: "string \<Rightarrow> py_error + subgroup_tables"
  calc_paired_metrics ::
    "string list \<Rightarrow> (string \<rightharpoonup> subgroup_tables) \<Rightarrow> py_error + paired_results"

record externals =
  WORD :: string
  VOCAB :: string
  nPMI :: "vocab_counts_df option \<Rightarrow> tokenized_df option \<Rightarrow> py_error + npmi_obj"

section \<open>Joint nPMI of a subgroup pair\<close>

definition truthy :: "string option \<Rightarrow> bool" where
  "truthy x = (case x of None \<Rightarrow> False | Some v \<Rightarrow> v \<noteq> [])"

definition str_of :: "string option \<Rightarrow> string" where
  "str_of x = (case x of None \<Rightarrow> [] | Some v \<Rightarrow> v)"

definition set_idx_cols_from_cache ::
  "externals \<Rightarrow> dataframe \<Rightarrow> string option \<Rightarrow> string option \<Rightarrow> py_error + dataframe" where
  "set_idx_cols_from_cache X csv_df subgroup calc_str =
     (let csv_df1 =
            (if ''Unnamed: 0'' \<in> set (column_names csv_df)
             then (set_index csv_df ''Unnamed: 0'')\<lparr>index_name := Some (WORD X)\<rparr>
             else if WORD X \<in> set (column_names csv_df)
             then (set_index csv_df (WORD X))\<lparr>index_name := Some (WORD X)\<rparr>
             else if VOCAB X \<in> set (column_names csv_df)
             then (set_index csv_df (VOCAB X))\<lparr>index_name := Some (WORD X)\<rparr>
             else csv_df)
      in if truthy subgroup \<and> truthy calc_str
         then set_columns csv_df1 [str_of subgroup @ ''-'' @ str_of calc_str]
         else if truthy subgroup then set_columns csv_df1 [str_of subgroup]
         else if truthy calc_str then set_columns csv_df1 [str_of calc_str]
         else Inr csv_df1)"

definition load_joint_npmi_df :: "externals \<Rightarrow> filesystem \<Rightarrow> string \<Rightarrow> py_error + dataframe" where
  "load_joint_npmi_df X fs joint_npmi_fid =
     (case read_csv fs joint_npmi_fid of
        Inl e \<Rightarrow> Inl e
      | Inr joint_npmi_df \<Rightarrow>
          (case set_idx_cols_from_cache X joint_npmi_df None None of
             Inl e \<Rightarrow> Inl e
           | Inr df \<Rightarrow> Inr (dropna df)))"

type_synonym subgroup_fids = "string \<times> string \<times> string"

fun define_subgroup_files_loop ::
  "string list \<Rightarrow> string \<Rightarrow> (string \<rightharpoonup> subgroup_fids) \<Rightarrow> (string \<rightharpoonup> subgroup_fids)" where
  "define_subgroup_files_loop [] cache_dir subgroup_files = subgroup_files"
| "define_subgroup_files_loop (subgroup # rest) cache_dir subgroup_files =
     define_subgroup_files_loop rest cache_dir
       (subgroup_files(subgroup \<mapsto>
          (pjoin cache_dir (subgroup @ ''_npmi.csv''),
           pjoin cache_dir (subgroup @ ''_pmi.csv''),
           pjoin cache_dir (subgroup @ ''_vocab_cooc.csv''))))"

definition define_subgroup_files :: "string list \<Rightarrow> string \<Rightarrow> (string \<rightharpoonup> subgroup_fids)" where
  "define_subgroup_files subgroup_list cache_dir =
     define_subgroup_files_loop subgroup_list cache_dir Map.empty"

text \<open>
  \<^verbatim>\<open>load_or_fail_cached_npmi_scores\<close>: the result \<open>None\<close> stands for the returned
  \<^verbatim>\<open>False\<close>.
\<close>

definition load_or_fail_cached_npmi_scores ::
  "externals \<Rightarrow> filesystem \<Rightarrow> string \<Rightarrow> subgroup_fids \<Rightarrow> py_error + subgroup_tables option" where
  "load_or_fail_cached_npmi_scores X fs subgroup subgroup_fids =
     (case subgroup_fids of
        (subgroup_npmi_fid, subgroup_pmi_fid, subgroup_cooc_fid) \<Rightarrow>
          if exists_file fs subgroup_npmi_fid \<and> exists_file fs subgroup_pmi_fid
             \<and> exists_file fs subgroup_cooc_fid
          then (case read_csv fs subgroup_cooc_fid of
                  Inl e \<Rightarrow> Inl e
                | Inr cooc0 \<Rightarrow>
              (case read_csv fs subgroup_pmi_fid of
                  Inl e \<Rightarrow> Inl e
                | Inr pmi0 \<Rightarrow>
              (case read_csv fs subgroup_npmi_fid of
                  Inl e \<Rightarrow> Inl e
                | Inr npmi0 \<Rightarrow>
              (case set_idx_cols_from_cache X cooc0 (Some subgroup) (Some ''count'') of
                  Inl e \<Rightarrow> Inl e
                | Inr subgroup_cooc_df \<Rightarrow>
              (case set_idx_cols_from_cache X pmi0 (Some subgroup) (Some ''pmi'') of
                  Inl e \<Rightarrow> Inl e
                | Inr subgroup_pmi_df \<Rightarrow>
              (case set_idx_cols_from_cache X npmi0 (Some subgroup) (Some ''npmi'') of
                  Inl e \<Rightarrow> Inl e
                | Inr subgroup_npmi_df \<Rightarrow>
                    Inr (Some (subgroup_cooc_df, subgroup_pmi_df, subgroup_npmi_df))))))))
          else Inr None)"

text \<open>
  The layout in which \<^verbatim>\<open>load_or_fail_cached_npmi_scores\<close> returns a table: the words as
  index and one column, named after the subgroup and the measure.
\<close>

definition cache_layout :: "externals \<Rightarrow> string \<Rightarrow> string \<Rightarrow> dataframe \<Rightarrow> bool" where
  "cache_layout X subgroup calc_str df =
     (index_name df = Some (WORD X) \<and> column_names df = [subgroup @ ''-'' @ calc_str])"

text \<open>
  The two assignments of \<^verbatim>\<open>make_npmi_fig\<close> for one subgroup: its nPMI column as floats
  and its count column as integers.
\<close>

definition subgroup_columns ::
  "paired_results \<Rightarrow> string \<Rightarrow> dataframe \<Rightarrow> py_error + dataframe" where
  "subgroup_columns paired_results subgroup UI_results =
     (case pr_npmi paired_results of
        None \<Rightarrow> Inl KeyError
      | Some npmi_df \<Rightarrow>
     (case getitem npmi_df (subgroup @ ''-npmi'') of
        Inl e \<Rightarrow> Inl e
      | Inr npmi_col \<Rightarrow>
     (case astype cell_to_float npmi_col of
        Inl e \<Rightarrow> Inl e
      | Inr npmi_float \<Rightarrow>
     (case setitem UI_results (subgroup @ ''-npmi'') npmi_float of
        Inl e \<Rightarrow> Inl e
      | Inr UI1 \<Rightarrow>
     (case pr_count paired_results of
        None \<Rightarrow> Inl KeyError
      | Some count_df \<Rightarrow>
     (case getitem count_df (subgroup @ ''-count'') of
        Inl e \<Rightarrow> Inl e
      | Inr count_col \<Rightarrow>
     (case astype cell_to_int count_col of
        Inl e \<Rightarrow> Inl e
      | Inr count_int \<Rightarrow> setitem UI1 (subgroup @ ''-count'') count_int)))))))"

definition make_npmi_fig :: "paired_results \<Rightarrow> string list \<Rightarrow> py_error + dataframe" where
  "make_npmi_fig paired_results subgroup_pair =
     (case subgroup_pair of
        [subgroup1, subgroup2] \<Rightarrow>
          (case (case pr_npmi_bias paired_results of
                   None \<Rightarrow> Inr empty_df
                 | Some bias \<Rightarrow>
                     (case astype cell_to_float bias of
                        Inl e \<Rightarrow> Inl e
                      | Inr bias_float \<Rightarrow> setitem empty_df ''npmi-bias'' bias_float)) of
             Inl e \<Rightarrow> Inl e
           | Inr UI0 \<Rightarrow>
          (case subgroup_columns paired_results subgroup1 UI0 of
             Inl e \<Rightarrow> Inl e
           | Inr UI1 \<Rightarrow>
          (case (if subgroup1 \<noteq> subgroup2 then subgroup_columns paired_results subgroup2 UI1
                 else Inr UI1) of
             Inl e \<Rightarrow> Inl e
           | Inr UI_results \<Rightarrow> sort_values UI_results ''npmi-bias'')))
      | _ \<Rightarrow> Inl ValueError)"

definition set_npmi_obj :: "externals \<Rightarrow> npmi_stats \<Rightarrow> py_error + npmi_obj" where
  "set_npmi_obj X self = nPMI X (vocab_counts_df (dstats self)) (tokenized_df (dstats self))"

fun calc_loop ::
  "npmi_obj \<Rightarrow> string list \<Rightarrow> (string \<rightharpoonup> subgroup_tables)
     \<Rightarrow> py_error + (string \<rightharpoonup> subgroup_tables)" where
  "calc_loop npmi_object [] subgroup_dict = Inr subgroup_dict"
| "calc_loop npmi_object (subgroup # rest) subgroup_dict =
     (if subgroup_dict subgroup = None
      then (case calc_metrics npmi_object subgroup of
              Inl e \<Rightarrow> Inl e
            | Inr tables \<Rightarrow> calc_loop npmi_object rest (subgroup_dict(subgroup \<mapsto> tables)))
      else calc_loop npmi_object rest subgroup_dict)"

definition do_npmi ::
  "externals \<Rightarrow> npmi_stats \<Rightarrow> string list \<Rightarrow> (string \<rightharpoonup> subgroup_tables)
     \<Rightarrow> py_error + (dataframe \<times> (string \<rightharpoonup> subgroup_tables))" where
  "do_npmi X self subgroup_pair subgroup_dict =
     (case set_npmi_obj X self of
        Inl e \<Rightarrow> Inl e
      | Inr npmi_object \<Rightarrow>
          (let sorted_pair = sort subgroup_pair
           in case calc_loop npmi_object sorted_pair subgroup_dict of
                Inl e \<Rightarrow> Inl e
              | Inr subgroup_dict' \<Rightarrow>
                  (case calc_paired_metrics npmi_object sorted_pair subgroup_dict' of
                     Inl e \<Rightarrow> Inl e
                   | Inr paired \<Rightarrow>
                       (case make_npmi_fig paired sorted_pair of
                          Inl e \<Rightarrow> Inl e
                        | Inr UI_results \<Rightarrow> Inr (UI_results, subgroup_dict')))))"

fun load_cached_loop ::
  "externals \<Rightarrow> filesystem \<Rightarrow> (string \<rightharpoonup> subgroup_fids) \<Rightarrow> string list
     \<Rightarrow> (string \<rightharpoonup> subgroup_tables) \<Rightarrow> py_error + (string \<rightharpoonup> subgroup_tables)" where
  "load_cached_loop X fs subgroup_files [] subgroup_dict = Inr subgroup_dict"
| "load_cached_loop X fs subgroup_files (subgroup # rest) subgroup_dict =
     (case subgroup_files subgroup of
        None \<Rightarrow> Inl KeyError
      | Some fids \<Rightarrow>
          (case load_or_fail_cached_npmi_scores X fs subgroup fids of
             Inl e \<Rightarrow> Inl e
           | Inr None \<Rightarrow> load_cached_loop X fs subgroup_files rest subgroup_dict
           | Inr (Some cached_results) \<Rightarrow>
               load_cached_loop X fs subgroup_files rest
                 (subgroup_dict(subgroup \<mapsto> cached_results))))"

definition prepare_joint_npmi_df ::
  "externals \<Rightarrow> filesystem \<Rightarrow> npmi_stats \<Rightarrow> string list \<Rightarrow> (string \<rightharpoonup> subgroup_fids)
     \<Rightarrow> py_error + (dataframe \<times> (string \<rightharpoonup> subgroup_tables))" where
  "prepare_joint_npmi_df X fs self subgroup_pair subgroup_files =
     (case load_cached_loop X fs subgroup_files subgroup_pair Map.empty of
        Inl e \<Rightarrow> Inl e
      | Inr subgroup_dict \<Rightarrow>
          (case do_npmi X self subgroup_pair subgroup_dict of
             Inl e \<Rightarrow> Inl e
           | Inr (joint_npmi_df, subgroup_dict') \<Rightarrow> Inr (dropna joint_npmi_df, subgroup_dict')))"

definition write_subgroup_npmi_data ::
  "string \<Rightarrow> (string \<rightharpoonup> subgroup_tables) \<Rightarrow> (string \<rightharpoonup> subgroup_fids) \<Rightarrow> filesystem
     \<Rightarrow> py_error + filesystem" where
  "write_subgroup_npmi_data subgroup subgroup_dict subgroup_files fs =
     (case subgroup_files subgroup of
        None \<Rightarrow> Inl KeyError
      | Some (subgroup_npmi_fid, subgroup_pmi_fid, subgroup_cooc_fid) \<Rightarrow>
          (case subgroup_dict subgroup of
             None \<Rightarrow> Inl KeyError
           | Some (subgroup_cooc_df, subgroup_pmi_df, subgroup_npmi_df) \<Rightarrow>
               Inr (write_file
                      (write_file
                         (write_file fs subgroup_npmi_fid (to_csv subgroup_npmi_df))
                         subgroup_pmi_fid (to_csv subgroup_pmi_df))
                      subgroup_cooc_fid (to_csv subgroup_cooc_df))))"

fun write_loop ::
  "string list \<Rightarrow> (string \<rightharpoonup> subgroup_tables) \<Rightarrow> (string \<rightharpoonup> subgroup_fids) \<Rightarrow> filesystem
     \<Rightarrow> py_error + filesystem" where
  "write_loop [] subgroup_dict subgroup_files fs = Inr fs"
| "write_loop (subgroup # rest) subgroup_dict subgroup_files fs =
     (case write_subgroup_npmi_data subgroup subgroup_dict subgroup_files fs of
        Inl e \<Rightarrow> Inl e
      | Inr fs' \<Rightarrow> write_loop rest subgroup_dict subgroup_files fs')"

fun str_join :: "string \<Rightarrow> string list \<Rightarrow> string" where
  "str_join sep [] = []"
| "str_join sep [x] = x"
| "str_join sep (x # y # ys) = x @ sep @ str_join sep (y # ys)"

definition npmi_display_cols :: "string \<Rightarrow> string \<Rightarrow> string list" where
  "npmi_display_cols subgroup1 subgroup2 =
     [''npmi-bias'', subgroup1 @ ''-npmi'', subgroup2 @ ''-npmi'',
      subgroup1 @ ''-count'', subgroup2 @ ''-count'']"

text \<open>
  \<^verbatim>\<open>load_or_prepare_joint_npmi\<close>. The pair is sorted first; then either the persisted
  joint table is loaded, or the joint table is prepared and it and the per-subgroup tables
  are written out. No other attribute of the object is read.
\<close>

definition load_or_prepare_joint_npmi ::
  "externals \<Rightarrow> filesystem \<Rightarrow> npmi_stats \<Rightarrow> string list \<Rightarrow> py_error + (dataframe \<times> filesystem)" where
  "load_or_prepare_joint_npmi X fs self subgroup_pair_arg =
     (let subgroup_pair = sort subgroup_pair_arg
      in if length subgroup_pair < 2 then Inl IndexError
         else
           (let subgroup1 = subgroup_pair ! 0;
                subgroup2 = subgroup_pair ! 1;
                subgroups_str = str_join ''-'' subgroup_pair;
                joint_npmi_fid = pjoin (pmi_dataset_cache_dir self) (subgroups_str @ ''_npmi.csv'');
                subgroup_files = define_subgroup_files subgroup_pair (pmi_dataset_cache_dir self)
            in if npmi_use_cache self \<and> exists_file fs joint_npmi_fid
               then (case load_joint_npmi_df X fs joint_npmi_fid of
                       Inl e \<Rightarrow> Inl e
                     | Inr loaded \<Rightarrow>
                         (case select_cols loaded (npmi_display_cols subgroup1 subgroup2) of
                            Inl e \<Rightarrow> Inl e
                          | Inr joint_npmi_df \<Rightarrow> Inr (joint_npmi_df, fs)))
               else (case prepare_joint_npmi_df X fs self subgroup_pair subgroup_files of
                       Inl e \<Rightarrow> Inl e
                     | Inr (joint_npmi_df, subgroup_dict) \<Rightarrow>
                         (case write_loop subgroup_pair subgroup_dict subgroup_files fs of
                            Inl e \<Rightarrow> Inl e
                          | Inr fs' \<Rightarrow>
                              Inr (joint_npmi_df,
                                   write_file fs' joint_npmi_fid (to_csv joint_npmi_df))))))"

section \<open>Sums of proportions\<close>



section \<open>A sample engine and sample inputs\<close>

text \<open>
  The engine is a parameter of every theorem below; concrete instances need one engine.
  Its pairing step is modelled from the spec, its per-term step is a table of results.
\<close>

text \<open>
  Modelled from the spec: the subtraction of two nPMI values in
  \<^verbatim>\<open>nPMI.calc_paired_metrics\<close> (\<^verbatim>\<open>npmi.py\<close> is not among the sources), giving the bias
  \<open>npmi_subgroup1 - npmi_subgroup2\<close>; a missing operand gives NaN.
\<close>

definition cell_minus :: "cell \<Rightarrow> cell \<Rightarrow> cell" where
  "cell_minus a b =
     (case (a, b) of
        (Flt (Num x), Flt (Num y)) \<Rightarrow> Flt (Num (x - y))
      | _ \<Rightarrow> Flt NaN)"

text \<open>
  Modelled from the spec: the inner join of \<^verbatim>\<open>nPMI.calc_paired_metrics\<close> (not among the
  sources) on the words two tables share; a word absent from either table is dropped.
\<close>

definition inner_join :: "dataframe \<Rightarrow> dataframe \<Rightarrow> dataframe" where
  "inner_join df1 df2 =
     \<lparr>index_name = index_name df1,
      column_names = column_names df1 @ column_names df2,
      rows = concat (map (\<lambda>(l, vs). case map_of (rows df2) l of
                                        None \<Rightarrow> []
                                      | Some ws \<Rightarrow> [(l, vs @ ws)]) (rows df1))\<rparr>"

text \<open>
  Modelled from the spec: \<^verbatim>\<open>nPMI.calc_paired_metrics\<close>, which is not among the sources.
  The pair is put in sorted order, the two subgroups' tables are joined on the words they
  share and the bias of a word is the nPMI of the first subgroup minus the nPMI of the
  second. The result has the three entries that \<^verbatim>\<open>make_npmi_fig\<close> reads.
\<close>

definition spec_calc_paired_metrics ::
  "string list \<Rightarrow> (string \<rightharpoonup> subgroup_tables) \<Rightarrow> py_error + paired_results" where
  "spec_calc_paired_metrics subgroup_pair subgroup_dict =
     (case sort subgroup_pair of
        [subgroup1, subgroup2] \<Rightarrow>
          (case (subgroup_dict subgroup1, subgroup_dict subgroup2) of
             (Some (cooc1, pmi1, npmi1), Some (cooc2, pmi2, npmi2)) \<Rightarrow>
               (let shared_npmi = inner_join npmi1 npmi2;
                    shared_count = inner_join cooc1 cooc2
                in case (getitem shared_npmi (subgroup1 @ ''-npmi''),
                         getitem shared_npmi (subgroup2 @ ''-npmi'')) of
                     (Inr a, Inr b) \<Rightarrow>
                       Inr \<lparr>pr_npmi_bias =
                              Some \<lparr>s_index_name = s_index_name a,
                                    s_rows = map (\<lambda>((l, x), (l', y)). (l, cell_minus x y))
                                               (zip (s_rows a) (s_rows b))\<rparr>,
                            pr_npmi = Some shared_npmi,
                            pr_count = Some shared_count\<rparr>
                   | _ \<Rightarrow> Inl KeyError)
           | _ \<Rightarrow> Inl KeyError)
      | _ \<Rightarrow> Inl ValueError)"

text \<open>
  Sample data for the concrete instances below: per-term tables for two identity terms,
  an engine that looks a term up in them (and raises ValueError for any other term), a
  dataset statistics object with a small vocabulary, and three texts.
\<close>

definition example_he_tables :: subgroup_tables where
  "example_he_tables =
     (\<lparr>index_name = Some ''word'', column_names = [''he-count''],
       rows = [(Str ''doctor'', [Intg 3]), (Str ''nurse'', [Intg 1])]\<rparr>,
      \<lparr>index_name = Some ''word'', column_names = [''he-pmi''],
       rows = [(Str ''doctor'', [Flt (Num (1 / 2))]), (Str ''nurse'', [Flt (Num (- 1))])]\<rparr>,
      \<lparr>index_name = Some ''word'', column_names = [''he-npmi''],
       rows = [(Str ''doctor'', [Flt (Num (1 / 2))]),
               (Str ''nurse'', [Flt (Num (- (1 / 4)))])]\<rparr>)"

definition example_she_tables :: subgroup_tables where
  "example_she_tables =
     (\<lparr>index_name = Some ''word'', column_names = [''she-count''],
       rows = [(Str ''doctor'', [Intg 1]), (Str ''nurse'', [Intg 4])]\<rparr>,
      \<lparr>index_name = Some ''word'', column_names = [''she-pmi''],
       rows = [(Str ''doctor'', [Flt (Num (- 1))]), (Str ''nurse'', [Flt (Num 1)])]\<rparr>,
      \<lparr>index_name = Some ''word'', column_names = [''she-npmi''],
       rows = [(Str ''doctor'', [Flt (Num (- (1 / 4)))]),
               (Str ''nurse'', [Flt (Num (1 / 2))])]\<rparr>)"

definition example_tables :: "(string \<times> subgroup_tables) list" where
  "example_tables = [(''he'', example_he_tables), (''she'', example_she_tables)]"

definition example_engine :: npmi_obj where
  "example_engine =
     \<lparr>calc_metrics = (\<lambda>subgroup. case map_of example_tables subgroup of
                                     None \<Rightarrow> Inl ValueError
                                   | Some t \<Rightarrow> Inr t),
      calc_paired_metrics = spec_calc_paired_metrics\<rparr>"

definition failing_nPMI :: "vocab_counts_df option \<Rightarrow> tokenized_df option \<Rightarrow> py_error + npmi_obj" where
  "failing_nPMI v t = Inl ValueError"

definition example_externals :: externals where
  "example_externals =
     \<lparr>WORD = ''word'', VOCAB = ''vocab'', nPMI = (\<lambda>v t. Inr example_engine)\<rparr>"

definition example_vocab :: vocab_counts_df where
  "example_vocab =
     [\<lparr>word = ''he'', cnt = 12, proportion = Num (12 / 20), vocab = ''he''\<rparr>,
      \<lparr>word = ''doctor'', cnt = 4, proportion = Num (4 / 20), vocab = ''doctor''\<rparr>,
      \<lparr>word = ''she'', cnt = 3, proportion = Num (3 / 20), vocab = ''she''\<rparr>,
      \<lparr>word = ''nurse'', cnt = 1, proportion = Num (1 / 20), vocab = ''nurse''\<rparr>]"

definition example_dstats :: dstats where
  "example_dstats =
     \<lparr>dataset_cache_dir = ''cache'', use_cache = True, save = True, text_dset = None,
      tokenized_df = None, vocab_counts_df = Some example_vocab,
      vocab_counts_filtered_df = None, min_vocab_count = MIN_VOCAB_COUNT\<rparr>"


definition example_tokenized :: tokenized_df where
  "example_tokenized =
     [\<lparr>our_text = ''The cat sat'', tokenized_text = [''the'', ''cat'', ''sat''], length_field = 3\<rparr>,
      \<lparr>our_text = ''the dog sat'', tokenized_text = [''the'', ''dog'', ''sat''], length_field = 3\<rparr>,
      \<lparr>our_text = ''Cat and dog play'', tokenized_text = [''cat'', ''and'', ''dog'', ''play''],
       length_field = 4\<rparr>]"

text \<open>
  The cache directory holding the three tables of \<^verbatim>\<open>he\<close> only, the joint table of the
  pair \<^verbatim>\<open>he\<close>, \<^verbatim>\<open>she\<close> under the sample engine, and the cache directory after that
  table was prepared from an empty cache, and the joint table as it is loaded from there.
\<close>

definition example_cache_he :: filesystem where
  "example_cache_he =
     [(''cache/pmi_files/he_npmi.csv'',
       CsvFile [''word'', ''he-npmi'']
         [ [Str ''doctor'', Flt (Num (1 / 2))], [Str ''nurse'', Flt (Num (- (1 / 4)))]]),
      (''cache/pmi_files/he_pmi.csv'',
       CsvFile [''word'', ''he-pmi'']
         [ [Str ''doctor'', Flt (Num (1 / 2))], [Str ''nurse'', Flt (Num (- 1))]]),
      (''cache/pmi_files/he_vocab_cooc.csv'',
       CsvFile [''word'', ''he-count''] [ [Str ''doctor'', Intg 3], [Str ''nurse'', Intg 1]])]"

definition example_joint :: dataframe where
  "example_joint =
     \<lparr>index_name = Some ''word'',
      column_names = [''npmi-bias'', ''he-npmi'', ''he-count'', ''she-npmi'', ''she-count''],
      rows = [(Str ''nurse'', [Flt (Num (- (3 / 4))), Flt (Num (- (1 / 4))), Intg 1,
                               Flt (Num (1 / 2)), Intg 4]),
              (Str ''doctor'', [Flt (Num (3 / 4)), Flt (Num (1 / 2)), Intg 3,
                                Flt (Num (- (1 / 4))), Intg 1])]\<rparr>"

definition example_cache_full :: filesystem where
  "example_cache_full =
     example_cache_he
     @ [(''cache/pmi_files/she_npmi.csv'',
         CsvFile [''word'', ''she-npmi'']
           [ [Str ''doctor'', Flt (Num (- (1 / 4)))], [Str ''nurse'', Flt (Num (1 / 2))]]),
        (''cache/pmi_files/she_pmi.csv'',
         CsvFile [''word'', ''she-pmi'']
           [ [Str ''doctor'', Flt (Num (- 1))], [Str ''nurse'', Flt (Num 1)]]),
        (''cache/pmi_files/she_vocab_cooc.csv'',
         CsvFile [''word'', ''she-count''] [ [Str ''doctor'', Intg 1], [Str ''nurse'', Intg 4]]),
        (''cache/pmi_files/he-she_npmi.csv'',
         CsvFile [''word'', ''npmi-bias'', ''he-npmi'', ''he-count'', ''she-npmi'', ''she-count'']
           [ [Str ''nurse'', Flt (Num (- (3 / 4))), Flt (Num (- (1 / 4))), Intg 1,
             Flt (Num (1 / 2)), Intg 4],
            [Str ''doctor'', Flt (Num (3 / 4)), Flt (Num (1 / 2)), Intg 3,
             Flt (Num (- (1 / 4))), Intg 1]])]"

definition example_joint_loaded :: dataframe where
  "example_joint_loaded =
     \<lparr>index_name = Some ''word'',
      column_names = [''npmi-bias'', ''he-npmi'', ''she-npmi'', ''he-count'', ''she-count''],
      rows = [(Str ''nurse'', [Flt (Num (- (3 / 4))), Flt (Num (- (1 / 4))), Flt (Num (1 / 2)),
                               Intg 1, Intg 4]),
              (Str ''doctor'', [Flt (Num (3 / 4)), Flt (Num (1 / 2)), Flt (Num (- (1 / 4))),
                                Intg 3, Intg 1])]\<rparr>"

definition example_npmi_stats :: npmi_stats where
  "example_npmi_stats = nPMIStatisticsCacheClass example_dstats False True"

section \<open>Batched counting\<close>

lemma batch_loop_eq:
  "batch_loop M m bs i tf =
     tf @ map (\<lambda>j. np_sum_axis0 m (row_slice M (bs ! j) (bs ! (j + 1)))) [i..<length bs - 1]"
proof (induction M m bs i tf rule: batch_loop.induct)
  case (1 M m bs i tf)
  show ?case
  proof (cases "i + 1 < length bs")
    case True
    then have "[i..<length bs - 1] = i # [i + 1..<length bs - 1]"
      by (simp add: upt_conv_Cons)
    with True "1.IH" show ?thesis
      by (simp add: batch_loop.simps [of M m bs i tf])
  next
    case False
    then show ?thesis by (simp add: batch_loop.simps [of M m bs i tf])
  qed
qed

lemma length_np_sum_axis0:
  "\<forall>r \<in> set rs. length r = m \<Longrightarrow> length (np_sum_axis0 m rs) = m"
  by (induction rs) (simp_all add: np_sum_axis0_def)

lemma np_sum_axis0_nth:
  "\<forall>r \<in> set rs. length r = m \<Longrightarrow> j < m \<Longrightarrow>
     np_sum_axis0 m rs ! j = sum_list (map (\<lambda>r. r ! j) rs)"
proof (induction rs)
  case Nil
  then show ?case by (simp add: np_sum_axis0_def)
next
  case (Cons r rs)
  then have len: "length (np_sum_axis0 m rs) = m" by (simp add: length_np_sum_axis0)
  from Cons have "np_sum_axis0 m rs ! j = sum_list (map (\<lambda>r. r ! j) rs)" by simp
  moreover have "np_sum_axis0 m (r # rs) = map2 (+) r (np_sum_axis0 m rs)"
    by (simp add: np_sum_axis0_def)
  ultimately show ?case using Cons.prems len by simp
qed

lemma concat_row_slices:
  "bs ! 0 = 0 \<Longrightarrow> \<forall>i < n. bs ! i \<le> bs ! (i + 1) \<Longrightarrow>
     concat (map (\<lambda>i. row_slice M (bs ! i) (bs ! (i + 1))) [0..<n]) = take (bs ! n) M"
proof (induction n)
  case 0
  then show ?case by simp
next
  case (Suc n)
  then have le: "bs ! n \<le> bs ! (n + 1)" by simp
  have "take (bs ! n + (bs ! (n + 1) - bs ! n)) M =
          take (bs ! n) M @ take (bs ! (n + 1) - bs ! n) (drop (bs ! n) M)"
    by (rule take_add)
  with le have "take (bs ! (n + 1)) M = take (bs ! n) M @ row_slice M (bs ! n) (bs ! (n + 1))"
    by (simp add: row_slice_def)
  with Suc show ?case by simp
qed

lemma linspace_int_nth: "i < num \<Longrightarrow> linspace_int stop num ! i = (i * stop) div (num - 1)"
  by (simp add: linspace_int_def)

lemma linspace_int_mono:
  "i + 1 < num \<Longrightarrow> linspace_int stop num ! i \<le> linspace_int stop num ! (i + 1)"
  by (simp add: linspace_int_nth div_le_mono)

lemma linspace_int_last: "2 \<le> num \<Longrightarrow> linspace_int stop num ! (num - 1) = stop"
  by (simp add: linspace_int_nth)

lemma batched_rows:
  assumes "2 \<le> num"
  shows "concat (map (\<lambda>i. row_slice M (linspace_int (length M) num ! i)
                                      (linspace_int (length M) num ! (i + 1))) [0..<num - 1]) = M"
proof -
  let ?bs = "linspace_int (length M) num"
  have z: "?bs ! 0 = 0" using assms by (simp add: linspace_int_nth)
  have m: "\<forall>i < num - 1. ?bs ! i \<le> ?bs ! (i + 1)"
    using linspace_int_mono [of _ num "length M"] by simp
  have c: "concat (map (\<lambda>i. row_slice M (?bs ! i) (?bs ! (i + 1))) [0..<num - 1])
             = take (?bs ! (num - 1)) M"
    using z m by (rule concat_row_slices)
  have l: "?bs ! (num - 1) = length M" using assms by (rule linspace_int_last)
  from c l show ?thesis by simp
qed

lemma set_row_slice: "set (row_slice M a b) \<subseteq> set M"
  unfolding row_slice_def by (meson set_take_subset set_drop_subset subset_trans)

lemma length_linspace_int [simp]: "length (linspace_int stop num) = num"
  by (simp add: linspace_int_def)

lemma sum_list_map_concat:
  "sum_list (map f (concat xss)) = sum_list (map (\<lambda>xs. sum_list (map f xs)) xss)"
  by (induction xss) simp_all

lemma batched_sum:
  assumes nb: "2 \<le> num" and rs: "\<forall>r \<in> set M. length r = m"
  shows "np_sum_axis0 m (batch_loop M m (linspace_int (length M) num) 0 []) = np_sum_axis0 m M"
proof (rule nth_equalityI)
  let ?bs = "linspace_int (length M) num"
  let ?sl = "\<lambda>i. row_slice M (?bs ! i) (?bs ! (i + 1))"
  have tf: "batch_loop M m ?bs 0 [] = map (\<lambda>i. np_sum_axis0 m (?sl i)) [0..<num - 1]"
    by (simp add: batch_loop_eq)
  have sl_rows: "\<forall>r \<in> set (?sl i). length r = m" for i
    using rs set_row_slice [of M] by blast
  have tf_rows: "\<forall>v \<in> set (batch_loop M m ?bs 0 []). length v = m"
    using sl_rows by (auto simp: tf length_np_sum_axis0)
  show "length (np_sum_axis0 m (batch_loop M m ?bs 0 [])) = length (np_sum_axis0 m M)"
    using tf_rows rs by (simp add: length_np_sum_axis0)
  fix j assume "j < length (np_sum_axis0 m (batch_loop M m ?bs 0 []))"
  with tf_rows have j: "j < m" by (simp add: length_np_sum_axis0)
  have "np_sum_axis0 m (batch_loop M m ?bs 0 []) ! j
          = sum_list (map (\<lambda>v. v ! j) (batch_loop M m ?bs 0 []))"
    using tf_rows j by (rule np_sum_axis0_nth)
  also have "\<dots> = sum_list (map (\<lambda>i. np_sum_axis0 m (?sl i) ! j) [0..<num - 1])"
    by (simp add: tf comp_def)
  also have "\<dots> = sum_list (map (\<lambda>i. sum_list (map (\<lambda>r. r ! j) (?sl i))) [0..<num - 1])"
    using sl_rows j by (simp add: np_sum_axis0_nth)
  also have "\<dots> = sum_list (map (\<lambda>r. r ! j) (concat (map ?sl [0..<num - 1])))"
    by (simp add: sum_list_map_concat comp_def)
  also have "\<dots> = sum_list (map (\<lambda>r. r ! j) M)"
    using nb by (simp only: batched_rows)
  also have "\<dots> = np_sum_axis0 m M ! j"
    using rs j by (simp add: np_sum_axis0_nth)
  finally show "np_sum_axis0 m (batch_loop M m ?bs 0 []) ! j = np_sum_axis0 m M ! j" .
qed

lemma batch_loop_nonempty:
  "2 \<le> num \<Longrightarrow> batch_loop M m (linspace_int stop num) 0 [] \<noteq> []"
  by (simp add: batch_loop_eq)

lemma cvec_transform_rows:
  "\<forall>r \<in> set (cvec_transform feature_names docs). length r = length feature_names"
  by (simp add: cvec_transform_def)

lemma np_sum_axis0_cvec_transform:
  "np_sum_axis0 (length feature_names) (cvec_transform feature_names docs)
     = map (\<lambda>w. sum_list (map (\<lambda>doc. count_list doc w) docs)) feature_names"
proof (rule nth_equalityI)
  show "length (np_sum_axis0 (length feature_names) (cvec_transform feature_names docs))
          = length (map (\<lambda>w. sum_list (map (\<lambda>doc. count_list doc w) docs)) feature_names)"
    by (simp add: length_np_sum_axis0 cvec_transform_rows)
  fix j assume "j < length (np_sum_axis0 (length feature_names) (cvec_transform feature_names docs))"
  then have j: "j < length feature_names"
    by (simp add: length_np_sum_axis0 cvec_transform_rows)
  then show "np_sum_axis0 (length feature_names) (cvec_transform feature_names docs) ! j
          = map (\<lambda>w. sum_list (map (\<lambda>doc. count_list doc w) docs)) feature_names ! j"
    by (simp add: np_sum_axis0_nth cvec_transform_rows) (simp add: cvec_transform_def comp_def)
qed

lemma count_vocab_frequencies_nb_unbatched:
  assumes "2 \<le> num_batches"
  shows "count_vocab_frequencies_nb num_batches tdf = count_vocab_unbatched tdf"
proof (cases "cvec_fit (map tokenized_text tdf)")
  case (Inl e)
  then show ?thesis
    by (simp add: count_vocab_frequencies_nb_def count_vocab_unbatched_def)
next
  case (Inr feature_names)
  let ?M = "cvec_transform feature_names (map tokenized_text tdf)"
  have len: "length ?M = length tdf" by (simp add: cvec_transform_def)
  have "np_sum_axis0 (length feature_names)
          (batch_loop ?M (length feature_names) (linspace_int (length ?M) num_batches) 0 [])
        = np_sum_axis0 (length feature_names) ?M"
    using assms cvec_transform_rows by (rule batched_sum)
  with Inr assms len show ?thesis
    by (simp add: count_vocab_frequencies_nb_def count_vocab_unbatched_def Let_def
        batch_loop_nonempty)
qed

lemma count_vocab_unbatched_counts:
  "count_vocab_unbatched tdf =
     (case cvec_fit (map tokenized_text tdf) of
        Inl e \<Rightarrow> Inl e
      | Inr feature_names \<Rightarrow>
          Inr (map (\<lambda>w. (w, sum_list (map (\<lambda>doc. count_list doc w)
                                         (map tokenized_text tdf)))) feature_names))"
  by (simp add: count_vocab_unbatched_def np_sum_axis0_cvec_transform zip_map2 zip_same_conv_map
      split: sum.split)

lemma count_vocab_frequencies_unbatched:
  "count_vocab_frequencies tdf = count_vocab_unbatched tdf"
  by (simp add: count_vocab_frequencies_def NUM_VOCAB_BATCHES_def
      count_vocab_frequencies_nb_unbatched)

text \<open>
  Claim C9. For every tokenized corpus, \<^verbatim>\<open>count_vocab_frequencies\<close> gives the same table
  as one summation over the whole document matrix; the batched accumulation gives that same
  table for every number of batch boundaries of at least two, not only for the 2000 of the
  code; and the count of each word is the total number of its occurrences over all
  documents (an empty vocabulary raises ValueError either way).
\<close>

theorem count_vocab_frequencies_batch_independent:
  "count_vocab_frequencies tdf = count_vocab_unbatched tdf
   \<and> (2 \<le> num_batches \<longrightarrow>
        count_vocab_frequencies_nb num_batches tdf = count_vocab_frequencies tdf)
   \<and> count_vocab_frequencies tdf =
       (case cvec_fit (map tokenized_text tdf) of
          Inl e \<Rightarrow> Inl e
        | Inr feature_names \<Rightarrow>
            Inr (map (\<lambda>w. (w, sum_list (map (\<lambda>doc. count_list doc w) (map tokenized_text tdf))))
                   feature_names))"
  by (simp add: count_vocab_frequencies_unbatched count_vocab_frequencies_nb_unbatched
      count_vocab_unbatched_counts)

text \<open>An instance of C9 with three batch boundaries on three documents.\<close>

theorem count_vocab_frequencies_batch_independent_witness:
  "(2::nat) \<le> 3
   \<and> count_vocab_frequencies_nb 3 example_tokenized = count_vocab_frequencies example_tokenized
   \<and> count_vocab_frequencies_nb 3 example_tokenized =
       Inr [(''and'', 1), (''cat'', 2), (''dog'', 2), (''play'', 1), (''sat'', 2), (''the'', 2)]"
proof -
  have "count_vocab_frequencies_nb 3 example_tokenized =
        Inr [(''and'', 1), (''cat'', 2), (''dog'', 2), (''play'', 1), (''sat'', 2), (''the'', 2)]"
    by code_simp
  with count_vocab_frequencies_batch_independent [of example_tokenized 3] show ?thesis by simp
qed

section \<open>Proportions and the closed-class filter\<close>

lemma member_le_sum_list_snd:
  "(w, c) \<in> set t \<Longrightarrow> c \<le> sum_list (map snd t)" for t :: "(string \<times> nat) list"
  by (induction t) auto

lemma np_div_total:
  "c \<le> n \<Longrightarrow> np_div c (real n) = (if n = 0 then NaN else Num (real c / real n))"
  by (simp add: np_div_def)

text \<open>
  Claim C7, as amended. For every word-count table \<^verbatim>\<open>calc_p_word\<close> returns a table and
  raises nothing: the rows are those of the input, each with its word as \<^verbatim>\<open>VOCAB\<close>; when
  the total count is positive the proportion of each word is its count divided by the
  total, and when the total count is 0 the proportion of each word is NaN.
\<close>

theorem calc_p_word_never_raises:
  "\<exists>v. calc_p_word t = Inr v \<and> length v = length t
       \<and> (\<lambda>r. (word r, cnt r)) ` set v = set t
       \<and> (\<forall>r \<in> set v. vocab r = word r
             \<and> (0 < sum_list (map snd t) \<longrightarrow>
                  proportion r = Num (real (cnt r) / real (sum_list (map snd t))))
             \<and> (sum_list (map snd t) = 0 \<longrightarrow> proportion r = NaN))"
proof -
  let ?n = "sum_list (map snd t)"
  let ?mk = "\<lambda>(w, c). \<lparr>word = w, cnt = c, proportion = np_div c (real ?n), vocab = w\<rparr>"
  let ?v = "sort_key (\<lambda>r. - int (cnt r)) (map ?mk t)"
  have res: "calc_p_word t = Inr ?v" by (simp add: calc_p_word_def)
  have len: "length ?v = length t" by simp
  have img: "(\<lambda>r. (word r, cnt r)) ` set ?v = set t" by (force simp: image_iff)
  have rows: "vocab r = word r
        \<and> (0 < ?n \<longrightarrow> proportion r = Num (real (cnt r) / real ?n))
        \<and> (?n = 0 \<longrightarrow> proportion r = NaN)" if "r \<in> set ?v" for r
  proof -
    from that obtain w c where wc: "(w, c) \<in> set t" and r: "r = ?mk (w, c)" by auto
    from wc have "c \<le> ?n" by (rule member_le_sum_list_snd)
    then have "np_div c (real ?n) = (if ?n = 0 then NaN else Num (real c / real ?n))"
      by (rule np_div_total)
    with r show ?thesis by simp
  qed
  from res len img rows show ?thesis by blast
qed

text \<open>An instance of C7 with a positive total.\<close>

theorem calc_p_word_never_raises_witness:
  "calc_p_word [(''cat'', 1), (''the'', 3)] =
     Inr [\<lparr>word = ''the'', cnt = 3, proportion = Num (3 / 4), vocab = ''the''\<rparr>,
          \<lparr>word = ''cat'', cnt = 1, proportion = Num (1 / 4), vocab = ''cat''\<rparr>]
   \<and> (\<exists>v. calc_p_word [(''cat'', 1), (''the'', 3)] = Inr v \<and> length v = 2
         \<and> (\<forall>r \<in> set v. vocab r = word r \<and> proportion r = Num (real (cnt r) / 4)))"
  using calc_p_word_never_raises [of "[(''cat'', 1), (''the'', 3)]"]
  by (simp add: calc_p_word_def np_div_def)

text \<open>
  Claim C7 as stated fails: on a table whose total count is 0 the function returns a table
  (with a NaN proportion, or no row at all) instead of an error.
\<close>

theorem calc_p_word_zero_total_counterexample:
  "sum_list (map snd [(''a'', 0::nat)]) = 0
   \<and> calc_p_word [(''a'', 0)] = Inr [\<lparr>word = ''a'', cnt = 0, proportion = NaN, vocab = ''a''\<rparr>]
   \<and> calc_p_word [] = Inr []"
  by (simp add: calc_p_word_def np_div_def)










section \<open>Availability of identity terms\<close>

lemma str_mod_looking: "str_mod ''Looking for cached terms in '' [fid] = Inl TypeError"
  by simp

lemma load_or_prepare_npmi_terms_raises:
  "load_or_prepare_npmi_terms fs self = Inl TypeError"
  by (simp add: load_or_prepare_npmi_terms_def)

lemma npmi_terms_body_load_only_unbound:
  assumes "npmi_load_only self"
      and "\<not> (npmi_use_cache self \<and> exists_file fs (npmi_terms_fid self))"
  shows "load_or_prepare_npmi_terms_body fs self = Inl UnboundLocalError"
  using assms by (auto simp: load_or_prepare_npmi_terms_body_def)

lemma load_or_prepare_vocab_load_only_absent:
  assumes "\<not> (use_cache self \<and> exists_file fs (vocab_counts_df_fid self))"
  shows "load_or_prepare_vocab sw True fs self = Inr (fs, self)"
  using assms by (auto simp: load_or_prepare_vocab_def)

lemma npmi_terms_body_cached:
  assumes "npmi_use_cache self"
      and "map_of fs (npmi_terms_fid self) = Some (JsonFile obj)"
      and "map_of obj ''available terms'' = Some ts"
      and "ts \<noteq> []"
  shows "load_or_prepare_npmi_terms_body fs self = Inr (ts, fs, self\<lparr>available_terms := ts\<rparr>)"
  using assms
  by (simp add: load_or_prepare_npmi_terms_body_def exists_file_def json_available_terms_def)

lemma filter_err_Inr:
  assumes "\<forall>x \<in> set xs. \<exists>b. test x = Inr b"
  shows "filter_err test xs = Inr (filter (\<lambda>x. test x = Inr True) xs)"
  using assms
proof (induction xs)
  case Nil
  then show ?case by simp
next
  case (Cons x xs)
  then obtain b where "test x = Inr b" by auto
  with Cons show ?case by (cases b) auto
qed


lemma loc_cnt_ge_distinct:
  assumes "distinct (map word v)" and "r \<in> set v"
  shows "loc_cnt_ge v m (word r) = Inr (m \<le> cnt r)"
proof -
  from assms have "filter (\<lambda>x. word x = word r) v = [r]"
  proof (induction v)
    case Nil
    then show ?case by simp
  next
    case (Cons a v)
    show ?case
    proof (cases "a = r")
      case True
      with Cons.prems have "\<forall>x \<in> set v. word x \<noteq> word r" by (auto simp: image_iff)
      then have "filter (\<lambda>x. word x = word r) v = []" by (simp add: filter_empty_conv)
      with True show ?thesis by simp
    next
      case False
      with Cons.prems have "r \<in> set v" and "word a \<noteq> word r" by (auto simp: image_iff)
      with Cons show ?thesis by simp
    qed
  qed
  then show ?thesis by (simp add: loc_cnt_ge_def)
qed

lemma zip_mask_filter: "map fst (filter snd (zip xs (map P xs))) = filter P xs"
  by (induction xs) simp_all

lemma npmi_terms_body_computed:
  assumes nocache: "\<not> (npmi_use_cache self \<and> exists_file fs (npmi_terms_fid self))"
      and compute: "\<not> npmi_load_only self"
      and v: "vocab_counts_df (dstats self) = Some v"
      and d: "distinct (map word v)"
  shows "\<exists>ts. load_or_prepare_npmi_terms_body fs self =
               Inr (ts, write_file fs (npmi_terms_fid self) (JsonFile [(''available terms'', ts)]),
                    self\<lparr>available_terms := ts\<rparr>)
             \<and> ts = filter (\<lambda>t. \<exists>r \<in> set v. word r = t \<and> npmi_min_vocab_count self \<le> cnt r)
                      (termlist self)"
proof -
  let ?m = "npmi_min_vocab_count self"
  let ?tmp = "map fst (filter snd (zip (termlist self) (map (\<lambda>term. term \<in> set (map word v)) (termlist self))))"
  have tmp: "?tmp = filter (\<lambda>t. t \<in> set (map word v)) (termlist self)"
    by (rule zip_mask_filter)
  have test: "\<exists>b. loc_cnt_ge v ?m t = Inr b" if "t \<in> set ?tmp" for t
  proof -
    from that obtain r where "r \<in> set v" "word r = t" unfolding tmp by auto
    with d show ?thesis using loc_cnt_ge_distinct by blast
  qed
  then have fe: "filter_err (loc_cnt_ge v ?m) ?tmp = Inr (filter (\<lambda>t. loc_cnt_ge v ?m t = Inr True) ?tmp)"
    by (intro filter_err_Inr) blast
  have pt: "(t \<in> set (map word v) \<and> loc_cnt_ge v ?m t = Inr True)
            = (\<exists>r \<in> set v. word r = t \<and> ?m \<le> cnt r)" for t
  proof (cases "t \<in> set (map word v)")
    case True
    then obtain r where r: "r \<in> set v" "word r = t" by auto
    with d have l: "loc_cnt_ge v ?m t = Inr (?m \<le> cnt r)" using loc_cnt_ge_distinct by blast
    have same: "r' = r" if "r' \<in> set v" "word r' = t" for r'
      using that r d by (metis distinct_map inj_onD)
    show ?thesis
    proof
      assume "t \<in> set (map word v) \<and> loc_cnt_ge v ?m t = Inr True"
      with l have "?m \<le> cnt r" by simp
      with r show "\<exists>r \<in> set v. word r = t \<and> ?m \<le> cnt r" by blast
    next
      assume "\<exists>r \<in> set v. word r = t \<and> ?m \<le> cnt r"
      then obtain r' where "r' \<in> set v" "word r' = t" "?m \<le> cnt r'" by blast
      with same have "?m \<le> cnt r" by blast
      with l True show "t \<in> set (map word v) \<and> loc_cnt_ge v ?m t = Inr True" by simp
    qed
  next
    case False
    then show ?thesis by auto
  qed
  have eq: "filter (\<lambda>t. loc_cnt_ge v ?m t = Inr True) ?tmp
          = filter (\<lambda>t. \<exists>r \<in> set v. word r = t \<and> ?m \<le> cnt r) (termlist self)"
    unfolding tmp filter_filter pt by (rule refl)
  from nocache have c: "(if npmi_use_cache self \<and> exists_file fs (npmi_terms_fid self)
            then (case json_available_terms fs (npmi_terms_fid self) of
                    Inl e \<Rightarrow> Inl e
                  | Inr ts \<Rightarrow> Inr (ts \<noteq> []))
            else Inr False) = Inr False"
    by (simp only: if_False)
  show ?thesis
    unfolding load_or_prepare_npmi_terms_body_def Let_def c v option.case fe eq
    using compute by simp
qed

text \<open>
  Claim C5 (the code departs from it). On a freshly constructed object with a vocabulary
  in which only \<^verbatim>\<open>he\<close> reaches the minimum count, \<^verbatim>\<open>load_or_prepare_npmi_terms\<close> raises
  TypeError in its first statement; the statements after it would return that term.
\<close>

theorem load_or_prepare_npmi_terms_type_error:
  "load_or_prepare_npmi_terms [] (nPMIStatisticsCacheClass example_dstats False False)
     = Inl TypeError
   \<and> map_sum id fst
       (load_or_prepare_npmi_terms_body [] (nPMIStatisticsCacheClass example_dstats False False))
     = Inr [''he'']"
proof -
  have "map_sum id fst
          (load_or_prepare_npmi_terms_body [] (nPMIStatisticsCacheClass example_dstats False False))
        = Inr [''he'']"
    by code_simp
  then show ?thesis by (simp add: load_or_prepare_npmi_terms_def)
qed

text \<open>
  Claim C6 (the code departs from it). With \<^verbatim>\<open>load_only\<close> set and nothing cached,
  \<^verbatim>\<open>load_or_prepare_npmi\<close> and \<^verbatim>\<open>load_or_prepare_npmi_terms\<close> raise TypeError in the
  first statement of the latter, and the statements after it raise UnboundLocalError, while
  \<^verbatim>\<open>load_or_prepare_vocab\<close> returns with the vocabulary left unset.
\<close>

theorem load_only_terms_raise:
  "load_or_prepare_npmi True [] example_dstats = Inl TypeError
   \<and> load_or_prepare_npmi_terms [] (nPMIStatisticsCacheClass example_dstats True True)
     = Inl TypeError
   \<and> load_or_prepare_npmi_terms_body [] (nPMIStatisticsCacheClass example_dstats True True)
     = Inl UnboundLocalError
   \<and> load_or_prepare_vocab [] True [] (example_dstats\<lparr>vocab_counts_df := None\<rparr>)
     = Inr ([], example_dstats\<lparr>vocab_counts_df := None\<rparr>)"
proof -
  have b: "load_or_prepare_npmi_terms_body [] (nPMIStatisticsCacheClass example_dstats True True)
             = Inl UnboundLocalError"
    by (rule npmi_terms_body_load_only_unbound)
       (simp_all add: nPMIStatisticsCacheClass_def exists_file_def)
  have v: "load_or_prepare_vocab [] True [] (example_dstats\<lparr>vocab_counts_df := None\<rparr>)
             = Inr ([], example_dstats\<lparr>vocab_counts_df := None\<rparr>)"
    by (rule load_or_prepare_vocab_load_only_absent) (simp add: exists_file_def)
  from b v show ?thesis
    by (simp add: load_or_prepare_npmi_def load_or_prepare_npmi_terms_raises)
qed

section \<open>Lowercase vocabulary\<close>

lemma lower_char_not_upper: "\<not> is_upper (lower_char c)"
proof (cases "is_upper c")
  case True
  then have r: "65 \<le> (of_char c :: nat)" "(of_char c :: nat) \<le> 90"
    by (simp_all add: is_upper_def less_eq_char_def)
  then have "(of_char (char_of (of_char c + (32::nat))) :: nat) = of_char c + 32"
    by simp
  with r True show ?thesis
    by (simp add: lower_char_def is_upper_def less_eq_char_def)
next
  case False
  then show ?thesis by (simp add: lower_char_def)
qed


lemma lower_char_idem: "lower_char (lower_char c) = lower_char c"
  using lower_char_not_upper [of c] by (simp add: lower_char_def)

lemma lower_idem: "lower (lower s) = lower s"
  by (simp add: lower_def lower_char_idem)







lemma count_vocab_frequencies_tokens_only:
  assumes "map tokenized_text tdf1 = map tokenized_text tdf2"
  shows "count_vocab_frequencies tdf1 = count_vocab_frequencies tdf2"
  unfolding count_vocab_frequencies_unbatched count_vocab_unbatched_counts
  by (simp only: assms)







section \<open>Pair order and availability in the joint table\<close>




lemma do_npmi_ignores_availability:
  "do_npmi X (self\<lparr>available_terms := ts, termlist := terms\<rparr>) p d = do_npmi X self p d"
  by (simp add: do_npmi_def set_npmi_obj_def)

lemma prepare_joint_npmi_df_ignores_availability:
  "prepare_joint_npmi_df X fs (self\<lparr>available_terms := ts, termlist := terms\<rparr>) p files
     = prepare_joint_npmi_df X fs self p files"
  unfolding prepare_joint_npmi_df_def by (simp only: do_npmi_ignores_availability)

text \<open>
  Claim C2, as amended. \<^verbatim>\<open>load_or_prepare_joint_npmi\<close> makes no availability check: for
  every pair, its outcome stays the same when the object's available terms and term list
  are replaced by any other lists, so a pair with an unavailable term is processed like
  any other pair.
\<close>

theorem joint_npmi_ignores_availability:
  "load_or_prepare_joint_npmi X fs (self\<lparr>available_terms := ts, termlist := terms\<rparr>) subgroup_pair
     = load_or_prepare_joint_npmi X fs self subgroup_pair"
  by (simp add: load_or_prepare_joint_npmi_def prepare_joint_npmi_df_ignores_availability
      Let_def cong: sum.case_cong)

text \<open>
  Claim C2 as stated fails: with a vocabulary in which only \<^verbatim>\<open>he\<close> reaches the minimum
  count (so that the availability computation selects \<^verbatim>\<open>he\<close> alone) and an object whose
  available terms are just that, the request for the pair (he, she) raises nothing: from
  an empty cache it returns the joint table computed by the sample engine, and from a
  cache directory that holds the joint table it returns the loaded table.
\<close>

theorem joint_npmi_unavailable_counterexample:
  "map_sum id fst (load_or_prepare_npmi_terms_body [] example_npmi_stats) = Inr [''he'']
   \<and> ''she'' \<notin> set (available_terms (example_npmi_stats\<lparr>available_terms := [''he'']\<rparr>))
   \<and> map_sum id fst (load_or_prepare_joint_npmi example_externals []
                       (example_npmi_stats\<lparr>available_terms := [''he'']\<rparr>) [''he'', ''she''])
     = Inr example_joint
   \<and> map_sum id fst (load_or_prepare_joint_npmi (example_externals\<lparr>nPMI := failing_nPMI\<rparr>)
                       example_cache_full
                       (example_npmi_stats\<lparr>available_terms := [''he'']\<rparr>) [''he'', ''she''])
     = Inr example_joint_loaded"
  by code_simp

section \<open>Partially cached subgroups\<close>








section \<open>Calling twice with the cache enabled\<close>




lemma npmi_ne_unnamed: "s @ ''-npmi'' \<noteq> ''Unnamed: 0''"
proof
  assume "s @ ''-npmi'' = ''Unnamed: 0''"
  then have "last (s @ ''-npmi'') = last ''Unnamed: 0''" by simp
  then show False by simp
qed

lemma count_ne_unnamed: "s @ ''-count'' \<noteq> ''Unnamed: 0''"
proof
  assume "s @ ''-count'' = ''Unnamed: 0''"
  then have "last (s @ ''-count'') = last ''Unnamed: 0''" by simp
  then show False by simp
qed






subsection \<open>Reloading a written table\<close>


lemma csv_rows_roundtrip:
  "map (\<lambda>(l, vs). (vs ! 0, take 0 vs @ drop (Suc 0) vs))
     (map (\<lambda>(i, vs). (Intg (int i), vs)) (enumerate k (map (\<lambda>(l, vs). l # vs) rs))) = rs"
  by (induction rs arbitrary: k) auto

lemma csv_rows_roundtrip_comp:
  "map ((\<lambda>(l, vs). (vs ! 0, drop (Suc 0) vs)) \<circ> (\<lambda>(i, y). (Intg (int i), y)))
     (enumerate k (map (\<lambda>(x, y). x # y) rs)) = rs"
  by (induction rs arbitrary: k) auto

lemma col_pos_head: "col_pos (c # ns) c = 0"
  by (simp add: col_pos_def)

lemma set_index_head:
  "set_index \<lparr>index_name = None, column_names = c # ns,
              rows = map (\<lambda>(i, vs). (Intg (int i), vs)) (enumerate 0 (map (\<lambda>(l, vs). l # vs) rs))\<rparr> c
     = \<lparr>index_name = Some c, column_names = ns, rows = rs\<rparr>"
  by (simp add: set_index_def col_pos_head csv_rows_roundtrip_comp)




lemma csv_header_recognised:
  assumes "index_name T = None \<or> index_name T = Some (WORD X) \<or> index_name T = Some (VOCAB X)"
  shows "(if (case index_name T of None \<Rightarrow> [] | Some n \<Rightarrow> n) = [] then ''Unnamed: 0''
          else (case index_name T of None \<Rightarrow> [] | Some n \<Rightarrow> n)) = ''Unnamed: 0''
       \<or> (if (case index_name T of None \<Rightarrow> [] | Some n \<Rightarrow> n) = [] then ''Unnamed: 0''
          else (case index_name T of None \<Rightarrow> [] | Some n \<Rightarrow> n)) = WORD X
       \<or> (if (case index_name T of None \<Rightarrow> [] | Some n \<Rightarrow> n) = [] then ''Unnamed: 0''
          else (case index_name T of None \<Rightarrow> [] | Some n \<Rightarrow> n)) = VOCAB X"
  using assms by (cases "index_name T") auto



subsection \<open>Reloading the tables of one subgroup\<close>

text \<open>
  The tables of a subgroup that \<^verbatim>\<open>write_subgroup_npmi_data\<close> has written are the tables
  that \<^verbatim>\<open>load_or_fail_cached_npmi_scores\<close> returns afterwards, when they have the layout of
  the cache: this is how a subgroup comes to be cached with the tables a computation gives.
\<close>

lemma set_idx_cols_rename:
  assumes h: "h0 = ''Unnamed: 0'' \<or> h0 = WORD X \<or> h0 = VOCAB X"
      and un: "''Unnamed: 0'' \<noteq> c"
      and w: "WORD X \<noteq> c"
      and sg: "subgroup \<noteq> []" and cs: "calc_str \<noteq> []"
  shows "set_idx_cols_from_cache X \<lparr>index_name = None, column_names = [h0, c], rows = R\<rparr>
           (Some subgroup) (Some calc_str)
           = Inr ((set_index \<lparr>index_name = None, column_names = [h0, c], rows = R\<rparr> h0)
                    \<lparr>index_name := Some (WORD X), column_names := [subgroup @ ''-'' @ calc_str]\<rparr>)"
proof (cases "h0 = ''Unnamed: 0''")
  case True
  with sg cs show ?thesis
    by (simp add: set_idx_cols_from_cache_def truthy_def str_of_def set_columns_def
        set_index_def col_pos_def)
next
  case nu: False
  show ?thesis
  proof (cases "h0 = WORD X")
    case True
    with nu un sg cs show ?thesis
      by (simp add: set_idx_cols_from_cache_def truthy_def str_of_def set_columns_def
          set_index_def col_pos_def)
  next
    case False
    with nu h have "h0 = VOCAB X" by simp
    with nu False un w sg cs show ?thesis
      by (auto simp: set_idx_cols_from_cache_def truthy_def str_of_def set_columns_def
          set_index_def col_pos_def)
  qed
qed

lemma reload_written_subgroup_table:
  assumes f: "map_of fs fid = Some (to_csv T)"
      and idx: "index_name T = None \<or> index_name T = Some (WORD X)
                \<or> index_name T = Some (VOCAB X)"
      and one: "column_names T = [c]"
      and ne: "c \<noteq> []"
      and un: "''Unnamed: 0'' \<noteq> c"
      and w: "WORD X \<noteq> c"
      and sg: "subgroup \<noteq> []" and cs: "calc_str \<noteq> []"
  shows "\<exists>df0. read_csv fs fid = Inr df0
           \<and> set_idx_cols_from_cache X df0 (Some subgroup) (Some calc_str)
               = Inr \<lparr>index_name = Some (WORD X), column_names = [subgroup @ ''-'' @ calc_str],
                      rows = rows T\<rparr>"
proof -
  let ?h = "case index_name T of None \<Rightarrow> [] | Some n \<Rightarrow> n"
  let ?h0 = "if ?h = [] then ''Unnamed: 0'' else ?h"
  let ?df0 = "\<lparr>index_name = None, column_names = [?h0, c],
               rows = map (\<lambda>(i, vs). (Intg (int i), vs))
                        (enumerate 0 (map (\<lambda>(l, vs). l # vs) (rows T)))\<rparr>"
  have s0: "str_nat 0 = ''0''" by code_simp
  have rd: "read_csv fs fid = Inr ?df0"
    using f ne one by (simp add: read_csv_def to_csv_def s0)
  have si: "set_index ?df0 ?h0 = \<lparr>index_name = Some ?h0, column_names = [c], rows = rows T\<rparr>"
    by (rule set_index_head)
  have "set_idx_cols_from_cache X ?df0 (Some subgroup) (Some calc_str)
          = Inr ((set_index ?df0 ?h0)
                   \<lparr>index_name := Some (WORD X), column_names := [subgroup @ ''-'' @ calc_str]\<rparr>)"
    using csv_header_recognised [OF idx] un w sg cs by (rule set_idx_cols_rename)
  then have "set_idx_cols_from_cache X ?df0 (Some subgroup) (Some calc_str)
          = Inr \<lparr>index_name = Some (WORD X), column_names = [subgroup @ ''-'' @ calc_str],
                 rows = rows T\<rparr>"
    by (simp only: si) simp
  with rd show ?thesis by blast
qed

lemma written_subgroup_tables_reload:
  assumes sg: "subgroup \<noteq> []"
      and w: "WORD X \<noteq> subgroup @ ''-count''" "WORD X \<noteq> subgroup @ ''-pmi''"
             "WORD X \<noteq> subgroup @ ''-npmi''"
      and lc: "cache_layout X subgroup ''count'' cooc"
      and lp: "cache_layout X subgroup ''pmi'' pmi"
      and ln: "cache_layout X subgroup ''npmi'' npmi"
      and fids: "subgroup_files subgroup = Some (npmi_fid, pmi_fid, cooc_fid)"
      and dist: "npmi_fid \<noteq> pmi_fid" "npmi_fid \<noteq> cooc_fid" "pmi_fid \<noteq> cooc_fid"
      and d: "subgroup_dict subgroup = Some (cooc, pmi, npmi)"
  shows "\<exists>fs'. write_subgroup_npmi_data subgroup subgroup_dict subgroup_files fs = Inr fs'
           \<and> load_or_fail_cached_npmi_scores X fs' subgroup (npmi_fid, pmi_fid, cooc_fid)
               = Inr (Some (cooc, pmi, npmi))"
proof -
  let ?fs' = "write_file (write_file (write_file fs npmi_fid (to_csv npmi)) pmi_fid (to_csv pmi))
                cooc_fid (to_csv cooc)"
  have wr: "write_subgroup_npmi_data subgroup subgroup_dict subgroup_files fs = Inr ?fs'"
    using fids d by (simp add: write_subgroup_npmi_data_def)
  have fc: "map_of ?fs' cooc_fid = Some (to_csv cooc)"
    by (simp add: write_file_def update_conv')
  have fp: "map_of ?fs' pmi_fid = Some (to_csv pmi)"
    using dist by (simp add: write_file_def update_conv')
  have fn: "map_of ?fs' npmi_fid = Some (to_csv npmi)"
    using dist by (simp add: write_file_def update_conv')
  have ex: "exists_file ?fs' npmi_fid \<and> exists_file ?fs' pmi_fid \<and> exists_file ?fs' cooc_fid"
    using fc fp fn by (simp only: exists_file_def) simp
  have nec: "subgroup @ ''-count'' \<noteq> []" "''Unnamed: 0'' \<noteq> subgroup @ ''-count''"
    and nep: "subgroup @ ''-pmi'' \<noteq> []" "''Unnamed: 0'' \<noteq> subgroup @ ''-pmi''"
    and nen: "subgroup @ ''-npmi'' \<noteq> []" "''Unnamed: 0'' \<noteq> subgroup @ ''-npmi''"
    by (simp_all add: count_ne_unnamed npmi_ne_unnamed)
  have ic: "index_name cooc = None \<or> index_name cooc = Some (WORD X)
            \<or> index_name cooc = Some (VOCAB X)"
    and ip: "index_name pmi = None \<or> index_name pmi = Some (WORD X)
            \<or> index_name pmi = Some (VOCAB X)"
    and inp: "index_name npmi = None \<or> index_name npmi = Some (WORD X)
            \<or> index_name npmi = Some (VOCAB X)"
    using lc lp ln by (simp_all add: cache_layout_def)
  have cc: "column_names cooc = [subgroup @ ''-count'']"
    and cp: "column_names pmi = [subgroup @ ''-pmi'']"
    and cn: "column_names npmi = [subgroup @ ''-npmi'']"
    using lc lp ln by (simp_all add: cache_layout_def)
  have c0: "''count'' \<noteq> []" and p0: "''pmi'' \<noteq> []" and n0: "''npmi'' \<noteq> []" by simp_all
  obtain dc where rc: "read_csv ?fs' cooc_fid = Inr dc"
    and sc: "set_idx_cols_from_cache X dc (Some subgroup) (Some ''count'')
               = Inr \<lparr>index_name = Some (WORD X), column_names = [subgroup @ ''-'' @ ''count''],
                      rows = rows cooc\<rparr>"
    using reload_written_subgroup_table [OF fc ic cc nec(1) nec(2) w(1) sg c0] by blast
  obtain dp where rp: "read_csv ?fs' pmi_fid = Inr dp"
    and sp: "set_idx_cols_from_cache X dp (Some subgroup) (Some ''pmi'')
               = Inr \<lparr>index_name = Some (WORD X), column_names = [subgroup @ ''-'' @ ''pmi''],
                      rows = rows pmi\<rparr>"
    using reload_written_subgroup_table [OF fp ip cp nep(1) nep(2) w(2) sg p0] by blast
  obtain dn where rn: "read_csv ?fs' npmi_fid = Inr dn"
    and sn: "set_idx_cols_from_cache X dn (Some subgroup) (Some ''npmi'')
               = Inr \<lparr>index_name = Some (WORD X), column_names = [subgroup @ ''-'' @ ''npmi''],
                      rows = rows npmi\<rparr>"
    using reload_written_subgroup_table [OF fn inp cn nen(1) nen(2) w(3) sg n0] by blast
  have ec: "\<lparr>index_name = Some (WORD X), column_names = [subgroup @ ''-'' @ ''count''],
             rows = rows cooc\<rparr> = cooc"
    using lc by (simp add: cache_layout_def)
  have ep: "\<lparr>index_name = Some (WORD X), column_names = [subgroup @ ''-'' @ ''pmi''],
             rows = rows pmi\<rparr> = pmi"
    using lp by (simp add: cache_layout_def)
  have en: "\<lparr>index_name = Some (WORD X), column_names = [subgroup @ ''-'' @ ''npmi''],
             rows = rows npmi\<rparr> = npmi"
    using ln by (simp add: cache_layout_def)
  have "load_or_fail_cached_npmi_scores X ?fs' subgroup (npmi_fid, pmi_fid, cooc_fid)
          = Inr (Some (cooc, pmi, npmi))"
    unfolding load_or_fail_cached_npmi_scores_def
    by (simp only: prod.case ex if_True simp_thms rc rp rn sc sp sn ec ep en sum.case)
  with wr show ?thesis by blast
qed

lemma pjoin_suffix_inj:
  assumes "pjoin d (s @ x) = pjoin d (s @ y)" and "x \<noteq> []" and "y \<noteq> []" and "hd x = hd y"
  shows "x = y"
proof -
  have "hd (s @ x) = hd (s @ y)" using assms(2-4) by (cases s) simp_all
  with assms show ?thesis by (simp add: pjoin_def split: if_splits)
qed

lemma subgroup_fids_distinct:
  "pjoin d (s @ ''_npmi.csv'') \<noteq> pjoin d (s @ ''_pmi.csv'')"
  "pjoin d (s @ ''_npmi.csv'') \<noteq> pjoin d (s @ ''_vocab_cooc.csv'')"
  "pjoin d (s @ ''_pmi.csv'') \<noteq> pjoin d (s @ ''_vocab_cooc.csv'')"
proof -
  show "pjoin d (s @ ''_npmi.csv'') \<noteq> pjoin d (s @ ''_pmi.csv'')"
    using pjoin_suffix_inj [of d s "''_npmi.csv''" "''_pmi.csv''"] by auto
  show "pjoin d (s @ ''_npmi.csv'') \<noteq> pjoin d (s @ ''_vocab_cooc.csv'')"
    using pjoin_suffix_inj [of d s "''_npmi.csv''" "''_vocab_cooc.csv''"] by auto
  show "pjoin d (s @ ''_pmi.csv'') \<noteq> pjoin d (s @ ''_vocab_cooc.csv'')"
    using pjoin_suffix_inj [of d s "''_pmi.csv''" "''_vocab_cooc.csv''"] by auto
qed

lemma define_subgroup_files_loop_lookup:
  "define_subgroup_files_loop subgroup_list d m s =
     (if s \<in> set subgroup_list
      then Some (pjoin d (s @ ''_npmi.csv''), pjoin d (s @ ''_pmi.csv''),
                 pjoin d (s @ ''_vocab_cooc.csv''))
      else m s)"
proof (induction subgroup_list arbitrary: m)
  case Nil
  show ?case by simp
next
  case (Cons a rest)
  show ?case by (simp add: Cons.IH)
qed

lemma define_subgroup_files_lookup:
  "s \<in> set subgroup_list \<Longrightarrow>
   define_subgroup_files subgroup_list d s =
     Some (pjoin d (s @ ''_npmi.csv''), pjoin d (s @ ''_pmi.csv''),
           pjoin d (s @ ''_vocab_cooc.csv''))"
  by (simp add: define_subgroup_files_def define_subgroup_files_loop_lookup)

lemma cached_subgroup_reload:
  assumes sg: "subgroup \<noteq> []" and mem: "subgroup \<in> set subgroup_list"
      and w: "WORD X \<noteq> subgroup @ ''-count''" "WORD X \<noteq> subgroup @ ''-pmi''"
             "WORD X \<noteq> subgroup @ ''-npmi''"
      and lc: "cache_layout X subgroup ''count'' cooc"
      and lp: "cache_layout X subgroup ''pmi'' pmi"
      and ln: "cache_layout X subgroup ''npmi'' npmi"
      and d: "subgroup_dict subgroup = Some (cooc, pmi, npmi)"
  shows "\<exists>fs' fids. define_subgroup_files subgroup_list cache_dir subgroup = Some fids
           \<and> write_subgroup_npmi_data subgroup subgroup_dict
                (define_subgroup_files subgroup_list cache_dir) fs = Inr fs'
           \<and> load_or_fail_cached_npmi_scores X fs' subgroup fids = Inr (Some (cooc, pmi, npmi))"
proof -
  let ?files = "define_subgroup_files subgroup_list cache_dir"
  have f: "?files subgroup =
             Some (pjoin cache_dir (subgroup @ ''_npmi.csv''),
                   pjoin cache_dir (subgroup @ ''_pmi.csv''),
                   pjoin cache_dir (subgroup @ ''_vocab_cooc.csv''))"
    using mem by (rule define_subgroup_files_lookup)
  have "\<exists>fs'. write_subgroup_npmi_data subgroup subgroup_dict ?files fs = Inr fs'
           \<and> load_or_fail_cached_npmi_scores X fs' subgroup
                 (pjoin cache_dir (subgroup @ ''_npmi.csv''),
                  pjoin cache_dir (subgroup @ ''_pmi.csv''),
                  pjoin cache_dir (subgroup @ ''_vocab_cooc.csv''))
               = Inr (Some (cooc, pmi, npmi))"
    using sg w lc lp ln f subgroup_fids_distinct [of cache_dir subgroup] d
    by (rule written_subgroup_tables_reload)
  with f show ?thesis by blast
qed

lemma cached_subgroup_reload_example:
  "cache_layout example_externals ''he'' ''count'' (fst example_he_tables)
   \<and> cache_layout example_externals ''he'' ''pmi'' (fst (snd example_he_tables))
   \<and> cache_layout example_externals ''he'' ''npmi'' (snd (snd example_he_tables))"
  by code_simp

subsection \<open>The second call\<close>















end
